theory Spec2Isabelle
  imports Main "HOL-Library.Word" "HOL-Library.FSet"
begin

section \<open>The room store and the socket handlers of server.js\<close>

text \<open>
  The server keeps two maps (\<open>rooms\<close>: passcode to room, \<open>roomIds\<close>: roomId to passcode)
  and registers seven handlers on every socket. Each handler is embedded as a function
  from the state before the event to the state after it and the list of emissions it makes.
  Strings are byte strings (the UTF-8 text of the JavaScript string); a field that may be
  \<open>undefined\<close> is an \<open>option\<close>. The fields of an event's payload are strings or
  \<open>undefined\<close>, as the interface of the specification has them. The arithmetic of
  line 36 is that of IEEE 754 doubles; time stamps are integers.
\<close>

subsection \<open>JavaScript values used by the handlers\<close>

text \<open>Truthiness of a value that is a string or \<open>undefined\<close>: the empty string is falsy.\<close>

definition truthy :: "string option \<Rightarrow> bool" where
  "truthy v = (case v of None \<Rightarrow> False | Some x \<Rightarrow> x \<noteq> [])"

text \<open>\<open>String(v)\<close> and the conversion made by a template literal.\<close>

definition js_String :: "string option \<Rightarrow> string" where
  "js_String v = (case v of None \<Rightarrow> ''undefined'' | Some x \<Rightarrow> x)"

text \<open>\<open>a || b\<close> where \<open>b\<close> is a string literal.\<close>

definition js_or :: "string option \<Rightarrow> string \<Rightarrow> string" where
  "js_or v d = (if truthy v then js_String v else d)"

text \<open>
  The white space and line terminators that \<open>String.prototype.trim\<close> removes, each as
  its UTF-8 bytes: U+0009..U+000D, U+0020, U+00A0, U+1680, U+2000..U+200A, U+2028, U+2029,
  U+202F, U+205F, U+3000, U+FEFF.
\<close>

definition js_whitespace :: "string list" where
  "js_whitespace =
     [[CHR 0x09], [CHR 0x0A], [CHR 0x0B], [CHR 0x0C], [CHR 0x0D], [CHR 0x20],
      [CHR 0xC2, CHR 0xA0], [CHR 0xE1, CHR 0x9A, CHR 0x80]] @
     map (\<lambda>c. [CHR 0xE2, CHR 0x80, c])
       [CHR 0x80, CHR 0x81, CHR 0x82, CHR 0x83, CHR 0x84, CHR 0x85, CHR 0x86, CHR 0x87,
        CHR 0x88, CHR 0x89, CHR 0x8A, CHR 0xA8, CHR 0xA9, CHR 0xAF] @
     [[CHR 0xE2, CHR 0x81, CHR 0x9F], [CHR 0xE3, CHR 0x80, CHR 0x80],
      [CHR 0xEF, CHR 0xBB, CHR 0xBF]]"

text \<open>The number of bytes of the white-space character that \<open>s\<close> starts with, 0 if none.\<close>

definition leading :: "string list \<Rightarrow> string \<Rightarrow> nat" where
  "leading ws s =
     (case find (\<lambda>w. w \<noteq> [] \<and> take (length w) s = w) ws of
        None \<Rightarrow> 0 | Some w \<Rightarrow> length w)"

function strip :: "string list \<Rightarrow> string \<Rightarrow> string" where
  "strip ws s = (if leading ws s = 0 then s else strip ws (drop (leading ws s) s))"
  by pat_completeness auto
termination
proof (relation "measure (\<lambda>(ws, s). length s)")
  show "wf (measure (\<lambda>(ws, s). length s))" by simp
next
  fix ws :: "string list" and s :: string
  assume pos: "leading ws s \<noteq> 0"
  then have "s \<noteq> []"
    by (auto simp: leading_def find_Some_iff split: option.splits)
  with pos show "((ws, drop (leading ws s) s), (ws, s)) \<in> measure (\<lambda>(ws, s). length s)"
    by simp
qed

declare strip.simps [simp del]

definition trimStart :: "string \<Rightarrow> string" where
  "trimStart s = strip js_whitespace s"

definition trimEnd :: "string \<Rightarrow> string" where
  "trimEnd s = rev (strip (map rev js_whitespace) (rev s))"

definition trim :: "string \<Rightarrow> string" where
  "trim s = trimEnd (trimStart s)"

text \<open>\<open>Number.prototype.toString\<close> on an integer: its decimal digits.\<close>

definition digit :: "nat \<Rightarrow> char" where
  "digit d = ''0123456789'' ! d"

fun digits :: "nat \<Rightarrow> string" where
  "digits n = (if n < 10 then [digit n] else digits (n div 10) @ [digit (n mod 10)])"

declare digits.simps [simp del]

definition toString :: "int \<Rightarrow> string" where
  "toString i = (if i < 0 then CHR ''-'' # digits (nat (- i)) else digits (nat i))"

text \<open>\<open>Buffer.prototype.toString("hex")\<close>: two lower-case hexadecimal digits per byte.\<close>

definition hexDigit :: "nat \<Rightarrow> char" where
  "hexDigit d = ''0123456789abcdef'' ! d"

definition toHex :: "8 word list \<Rightarrow> string" where
  "toHex bs = concat (map (\<lambda>b. [hexDigit (unat b div 16), hexDigit (unat b mod 16)]) bs)"

subsection \<open>The state\<close>

type_synonym socketId = string

record room =
  roomId :: string
  expireAt :: int

text \<open>The two properties the handlers put on a socket object; both start \<open>undefined\<close>.\<close>

record socket =
  socket_roomId :: "string option"
  socket_userName :: "string option"

text \<open>
  What a socket can be sent, the event name with its payload: \<open>roomCreated\<close> with
  \<open>passcode\<close>, \<open>roomId\<close>, \<open>expireAt\<close>; \<open>joinSuccess\<close> with \<open>roomId\<close>,
  \<open>passcode\<close> (the result of \<open>roomIds.get\<close>), \<open>expireAt\<close>; \<open>systemMessage\<close> with its
  text; \<open>newMessage\<close> with \<open>message\<close> and \<open>from\<close>; \<open>showTyping\<close>; \<open>hideTyping\<close>.
\<close>

datatype payload =
    RoomCreated string string int
  | JoinSuccess string "string option" int
  | SystemMessage string
  | NewMessage string "string option"
  | ShowTyping
  | HideTyping

text \<open>One \<open>emit\<close> call: the sockets it reaches and what they get.\<close>

type_synonym emission = "socketId fset \<times> payload"

text \<open>
  \<open>rooms\<close> and \<open>roomIds\<close> are the two maps of the room store. \<open>adapter\<close> is
  \<open>io.sockets.adapter.rooms\<close>, the members of each transport room (a room without
  members has no entry there, which is the empty set here). \<open>connected\<close> and \<open>sockets\<close>
  are the live sockets and their objects, \<open>timers\<close> the pending \<open>setTimeout\<close> callbacks,
  each with the \<open>passcode\<close> and \<open>roomId\<close> its closure captured.
\<close>

record state =
  rooms :: "string \<rightharpoonup> room"
  roomIds :: "string \<rightharpoonup> string"
  adapter :: "string \<Rightarrow> socketId fset"
  connected :: "socketId fset"
  sockets :: "socketId \<Rightarrow> socket"
  timers :: "(string \<times> string) list"

definition init :: state where
  "init = \<lparr>rooms = Map.empty, roomIds = Map.empty, adapter = (\<lambda>r. {||}), connected = {||},
           sockets = (\<lambda>c. \<lparr>socket_roomId = None, socket_userName = None\<rparr>), timers = []\<rparr>"

subsection \<open>The transport\<close>

text \<open>
  The handlers call socket.io, a library that is not part of the repository. Its calls are
  modelled after the transport contract of the specification (\<open>join\<close>, \<open>leave\<close>,
  \<open>membersOf\<close>, \<open>emitToRoom\<close> with an optional excluded connection,
  \<open>emitToConnection\<close>, removal of a disconnected connection from every group). The room that
  socket.io names after each socket's own id is left out: the handlers only address rooms
  named by \<open>toHex\<close> of 16 bytes, which no socket id is.
\<close>

text \<open>Modelled from the spec: \<open>socket.join(r)\<close>, the transport's \<open>join(connectionId, roomKey)\<close>.\<close>

definition join :: "socketId \<Rightarrow> string \<Rightarrow> state \<Rightarrow> state" where
  "join c r s = s\<lparr>adapter := (adapter s)(r := finsert c (adapter s r))\<rparr>"

text \<open>Modelled from the spec: \<open>socket.leave(r)\<close>, the transport's \<open>leave(connectionId, roomKey)\<close>.\<close>

definition leave :: "socketId \<Rightarrow> string \<Rightarrow> state \<Rightarrow> state" where
  "leave c r s = s\<lparr>adapter := (adapter s)(r := adapter s r |-| {|c|})\<rparr>"

text \<open>Modelled from the spec: \<open>io.socketsLeave(r)\<close>, which detaches every member of the group.\<close>

definition socketsLeave :: "string \<Rightarrow> state \<Rightarrow> state" where
  "socketsLeave r s = s\<lparr>adapter := (adapter s)(r := {||})\<rparr>"

text \<open>
  Modelled from the spec: what the transport does to a connection that disconnects, which is
  to remove it from all groups.
\<close>

definition leaveAll :: "socketId \<Rightarrow> state \<Rightarrow> state" where
  "leaveAll c s = s\<lparr>adapter := (\<lambda>r. adapter s r |-| {|c|})\<rparr>"

text \<open>
  Modelled from the spec: \<open>socket.rooms.has(r)\<close>, whether the connection is in
  \<open>membersOf(roomKey)\<close>.
\<close>

definition socket_rooms_has :: "state \<Rightarrow> socketId \<Rightarrow> string \<Rightarrow> bool" where
  "socket_rooms_has s c r = (c |\<in>| adapter s r)"

text \<open>Modelled from the spec: \<open>socket.emit\<close>, the transport's \<open>emitToConnection\<close>.\<close>

definition socket_emit :: "socketId \<Rightarrow> payload \<Rightarrow> emission" where
  "socket_emit c p = ({|c|}, p)"

text \<open>
  Modelled from the spec: \<open>io.to(r).emit\<close>, the transport's \<open>emitToRoom\<close> with nobody
  excluded.
\<close>

definition io_to_emit :: "state \<Rightarrow> string \<Rightarrow> payload \<Rightarrow> emission" where
  "io_to_emit s r p = (adapter s r, p)"

text \<open>
  Modelled from the spec: \<open>socket.to(r).emit\<close>, the transport's \<open>emitToRoom\<close> with the
  sending connection excluded.
\<close>

definition socket_to_emit :: "state \<Rightarrow> socketId \<Rightarrow> string \<Rightarrow> payload \<Rightarrow> emission" where
  "socket_to_emit s c r p = (adapter s r |-| {|c|}, p)"

text \<open>What socket \<open>c\<close> receives from a list of emissions, in order.\<close>

definition received :: "socketId \<Rightarrow> emission list \<Rightarrow> payload list" where
  "received c out = map snd (filter (\<lambda>e. c |\<in>| fst e) out)"

subsection \<open>generateUniquePasscode\<close>

text \<open>
  Line 36, \<open>Math.floor(100000 + Math.random() * 900000).toString()\<close>, computes in IEEE 754
  doubles: the product and the sum are each rounded to the nearest double, ties to even. Every
  value in it is a finite double that is not negative; such a double is written here as a pair
  \<open>(m, e)\<close> of natural numbers and stands for \<open>m / 2 ^ e\<close>.
\<close>

type_synonym double = "nat \<times> nat"

text \<open>The number of binary digits of a natural number.\<close>

fun bits :: "nat \<Rightarrow> nat" where
  "bits n = (if n = 0 then 0 else 1 + bits (n div 2))"

declare bits.simps [simp del]

text \<open>
  A natural number rounded to 53 significant binary digits, to nearest, ties to even. This is
  what a double operation does to the numerator of its exact result (no result here is large
  enough to overflow, and none has a digit below \<open>2 ^ -1074\<close> that rounding would have to
  drop).
\<close>

definition round53 :: "nat \<Rightarrow> nat" where
  "round53 n =
     (let sh = bits n - 53; q = n div 2 ^ sh; rest = n mod 2 ^ sh in
      if 2 ^ sh < 2 * rest \<or> (2 * rest = 2 ^ sh \<and> odd q) then (q + 1) * 2 ^ sh else q * 2 ^ sh)"

text \<open>\<open>x * k\<close> for a double \<open>x\<close> and a natural number \<open>k\<close> that is a double.\<close>

definition double_times :: "double \<Rightarrow> nat \<Rightarrow> double" where
  "double_times x k = (round53 (fst x * k), snd x)"

text \<open>\<open>k + x\<close> for a natural number \<open>k\<close> that is a double and a double \<open>x\<close>.\<close>

definition double_plus :: "nat \<Rightarrow> double \<Rightarrow> double" where
  "double_plus k x = (round53 (k * 2 ^ snd x + fst x), snd x)"

definition Math_floor :: "double \<Rightarrow> int" where
  "Math_floor x = int (fst x div 2 ^ snd x)"

text \<open>The passcode that line 36 makes of the result \<open>r\<close> of \<open>Math.random()\<close>.\<close>

definition candidate :: "double \<Rightarrow> string" where
  "candidate r = toString (Math_floor (double_plus 100000 (double_times r 900000)))"

text \<open>
  What \<open>Math.random()\<close> can return: a double that is at least 0 and below 1. These are the
  \<open>m / 2 ^ e\<close> below 1 with \<open>m\<close> of at most 53 binary digits and \<open>e\<close> at most 1074.
\<close>

definition is_random :: "double \<Rightarrow> bool" where
  "is_random r = (fst r < 2 ^ 53 \<and> snd r \<le> 1074 \<and> fst r < 2 ^ snd r)"

text \<open>
  The \<open>do ... while\<close> loop draws from \<open>Math.random()\<close> until the passcode is not a key of
  \<open>rooms\<close>. The successive results of \<open>Math.random()\<close> are the list \<open>rnd\<close>; the loop may
  run forever, so the result is \<open>None\<close> when the list ends before a free passcode is drawn.
\<close>

fun generateUniquePasscode :: "(string \<rightharpoonup> room) \<Rightarrow> double list \<Rightarrow> string option" where
  "generateUniquePasscode rms [] = None"
| "generateUniquePasscode rms (r # rnd) =
     (let passcode = candidate r in
      if rms passcode \<noteq> None then generateUniquePasscode rms rnd else Some passcode)"

subsection \<open>The handlers\<close>

text \<open>The message of the expiry callback starts with U+26A0 U+FE0F.\<close>

definition room_expired :: string where
  "room_expired =
     [CHR 0xE2, CHR 0x9A, CHR 0xA0, CHR 0xEF, CHR 0xB8, CHR 0x8F] @ '' Room expired.''"

text \<open>
  \<open>createRoom\<close>: \<open>rnd\<close> are the results of \<open>Math.random()\<close>, \<open>bytes\<close> is the result of
  \<open>crypto.randomBytes(16)\<close> and \<open>now\<close> that of \<open>Date.now()\<close>. The callback given to
  \<open>setTimeout\<close> is recorded in \<open>timers\<close>.
\<close>

definition createRoom ::
  "socketId \<Rightarrow> double list \<Rightarrow> 8 word list \<Rightarrow> int \<Rightarrow> state \<Rightarrow> (state \<times> emission list) option" where
  "createRoom c rnd bytes now s =
     (case generateUniquePasscode (rooms s) rnd of
        None \<Rightarrow> None
      | Some passcode \<Rightarrow>
          let rid = toHex bytes;
              expiresIn = 40 * 60 * 1000;
              expAt = now + expiresIn;
              s1 = s\<lparr>rooms := (rooms s)(passcode \<mapsto> \<lparr>roomId = rid, expireAt = expAt\<rparr>)\<rparr>;
              s2 = s1\<lparr>roomIds := (roomIds s1)(rid \<mapsto> passcode)\<rparr>;
              s3 = join c rid s2;
              s4 = s3\<lparr>sockets := (sockets s3)(c := (sockets s3 c)\<lparr>socket_roomId := Some rid\<rparr>)\<rparr>;
              s5 = s4\<lparr>timers := timers s4 @ [(passcode, rid)]\<rparr>
          in Some (s5, [socket_emit c (RoomCreated passcode rid expAt)]))"

text \<open>The callback of \<open>setTimeout\<close>, with the \<open>passcode\<close> and \<open>roomId\<close> of its closure.\<close>

definition expiry :: "string \<Rightarrow> string \<Rightarrow> state \<Rightarrow> state \<times> emission list" where
  "expiry passcode rid s =
     (if rooms s passcode \<noteq> None then
        let s1 = s\<lparr>rooms := (rooms s)(passcode := None)\<rparr>;
            s2 = s1\<lparr>roomIds := (roomIds s1)(rid := None)\<rparr>
        in (socketsLeave rid s2, [io_to_emit s2 rid (SystemMessage room_expired)])
      else (s, []))"

text \<open>Lines 72 to 82 of \<open>joinRoom\<close>: the value of \<open>roomData\<close>.\<close>

definition findRoom :: "state \<Rightarrow> string option \<Rightarrow> string option \<Rightarrow> room option" where
  "findRoom s passcode rid =
     (if truthy passcode then rooms s (trim (js_String passcode))
      else if truthy rid then
        (case roomIds s (js_String rid) of
           None \<Rightarrow> None
         | Some pCode \<Rightarrow> if pCode \<noteq> [] then rooms s pCode else None)
      else None)"

definition joinRoom ::
  "socketId \<Rightarrow> string option \<Rightarrow> string option \<Rightarrow> string option \<Rightarrow> state \<Rightarrow> state \<times> emission list" where
  "joinRoom c passcode rid name s =
     (case findRoom s passcode rid of
        None \<Rightarrow> (s, [socket_emit c (SystemMessage ''Invalid or expired passcode.'')])
      | Some roomData \<Rightarrow>
          let members = adapter s (roomId roomData) in
          if 2 \<le> fcard members \<and> \<not> socket_rooms_has s c (roomId roomData) then
            (s, [socket_emit c (SystemMessage ''Room is full.'')])
          else
            let s1 = join c (roomId roomData) s;
                s2 = s1\<lparr>sockets := (sockets s1)(c := (sockets s1 c)\<lparr>socket_roomId := Some (roomId roomData)\<rparr>)\<rparr>;
                s3 = s2\<lparr>sockets := (sockets s2)(c := (sockets s2 c)\<lparr>socket_userName := Some (js_or name ''Anonymous'')\<rparr>)\<rparr>
            in (s3,
                [socket_emit c (JoinSuccess (roomId roomData) (roomIds s3 (roomId roomData)) (expireAt roomData)),
                 io_to_emit s3 (roomId roomData)
                   (SystemMessage (js_String (socket_userName (sockets s3 c)) @ '' joined.''))]))"

definition sendMessage :: "socketId \<Rightarrow> string \<Rightarrow> state \<Rightarrow> state \<times> emission list" where
  "sendMessage c message s =
     (if \<not> truthy (socket_roomId (sockets s c)) then (s, [])
      else (s, [socket_to_emit s c (js_String (socket_roomId (sockets s c)))
                  (NewMessage message (socket_userName (sockets s c)))]))"

definition typing :: "socketId \<Rightarrow> state \<Rightarrow> state \<times> emission list" where
  "typing c s =
     (if truthy (socket_roomId (sockets s c))
      then (s, [socket_to_emit s c (js_String (socket_roomId (sockets s c))) ShowTyping])
      else (s, []))"

definition stopTyping :: "socketId \<Rightarrow> state \<Rightarrow> state \<times> emission list" where
  "stopTyping c s =
     (if truthy (socket_roomId (sockets s c))
      then (s, [socket_to_emit s c (js_String (socket_roomId (sockets s c))) HideTyping])
      else (s, []))"

definition quitRoom :: "socketId \<Rightarrow> state \<Rightarrow> state \<times> emission list" where
  "quitRoom c s =
     (if \<not> truthy (socket_roomId (sockets s c)) then (s, [])
      else (leave c (js_String (socket_roomId (sockets s c))) s,
            [socket_to_emit s c (js_String (socket_roomId (sockets s c)))
               (SystemMessage (js_String (socket_userName (sockets s c)) @ '' left.''))]))"

text \<open>
  The \<open>disconnect\<close> handler. It changes nothing itself; the transport has taken the socket
  out of every room before it runs (see \<open>step\<close>).
\<close>

definition disconnect :: "socketId \<Rightarrow> state \<Rightarrow> state \<times> emission list" where
  "disconnect c s =
     (if truthy (socket_roomId (sockets s c))
      then (s, [socket_to_emit s c (js_String (socket_roomId (sockets s c)))
                  (SystemMessage (js_or (socket_userName (sockets s c)) ''User'' @ '' disconnected.''))])
      else (s, []))"

subsection \<open>Runs of the server\<close>

text \<open>
  What can happen to the server: a socket connects (\<open>io.on("connection")\<close>, a new socket
  object), a connected socket sends one of its events, the transport reports a disconnect,
  or a pending timer fires.
\<close>

datatype event =
    Connect socketId
  | CreateRoom socketId "double list" "8 word list" int
  | JoinRoom socketId "string option" "string option" "string option"
  | SendMessage socketId string
  | Typing socketId
  | StopTyping socketId
  | QuitRoom socketId
  | Disconnect socketId
  | Expire string string

text \<open>
  One event. The result is \<open>None\<close> when the event cannot happen in \<open>s\<close>: an event of a socket
  that is not connected, a connection under an id in use, a timer that is not pending, random
  input that the library cannot return (\<open>Math.random()\<close> is at least 0 and below 1,
  \<open>randomBytes(16)\<close> has 16 bytes), or a passcode loop that has not ended on \<open>rnd\<close>.
\<close>

fun step :: "state \<Rightarrow> event \<Rightarrow> (state \<times> emission list) option" where
  "step s (Connect c) =
     (if c |\<in>| connected s then None
      else Some (s\<lparr>connected := finsert c (connected s),
                   sockets := (sockets s)(c := \<lparr>socket_roomId = None, socket_userName = None\<rparr>)\<rparr>, []))"
| "step s (CreateRoom c rnd bytes now) =
     (if c |\<in>| connected s \<and> length bytes = 16 \<and> list_all is_random rnd
      then createRoom c rnd bytes now s else None)"
| "step s (JoinRoom c passcode rid name) =
     (if c |\<in>| connected s then Some (joinRoom c passcode rid name s) else None)"
| "step s (SendMessage c message) =
     (if c |\<in>| connected s then Some (sendMessage c message s) else None)"
| "step s (Typing c) = (if c |\<in>| connected s then Some (typing c s) else None)"
| "step s (StopTyping c) = (if c |\<in>| connected s then Some (stopTyping c s) else None)"
| "step s (QuitRoom c) = (if c |\<in>| connected s then Some (quitRoom c s) else None)"
| "step s (Disconnect c) =
     (if c |\<in>| connected s
      then Some (disconnect c (leaveAll c (s\<lparr>connected := connected s |-| {|c|}\<rparr>)))
      else None)"
| "step s (Expire passcode rid) =
     (if (passcode, rid) \<in> set (timers s)
      then Some (expiry passcode rid (s\<lparr>timers := remove1 (passcode, rid) (timers s)\<rparr>))
      else None)"

text \<open>A run: the events in order, with all emissions collected.\<close>

fun run :: "state \<Rightarrow> event list \<Rightarrow> (state \<times> emission list) option" where
  "run s [] = Some (s, [])"
| "run s (e # es) =
     (case step s e of
        None \<Rightarrow> None
      | Some (s1, out1) \<Rightarrow>
          (case run s1 es of None \<Rightarrow> None | Some (s2, out2) \<Rightarrow> Some (s2, out1 @ out2)))"

definition reachable :: "state \<Rightarrow> bool" where
  "reachable s = (\<exists>es out. run init es = Some (s, out))"

text \<open>
  \<open>createRoom\<close> does not check that the roomId it draws is new. A run in which every
  \<open>createRoom\<close> draws a roomId that is not a key of \<open>roomIds\<close> at that moment:
\<close>

fun fresh_roomId :: "state \<Rightarrow> event \<Rightarrow> bool" where
  "fresh_roomId s (CreateRoom c rnd bytes now) = (roomIds s (toHex bytes) = None)"
| "fresh_roomId s e = True"

fun run_fresh :: "state \<Rightarrow> event list \<Rightarrow> (state \<times> emission list) option" where
  "run_fresh s [] = Some (s, [])"
| "run_fresh s (e # es) =
     (if fresh_roomId s e then
        (case step s e of
           None \<Rightarrow> None
         | Some (s1, out1) \<Rightarrow>
             (case run_fresh s1 es of None \<Rightarrow> None | Some (s2, out2) \<Rightarrow> Some (s2, out1 @ out2)))
      else None)"

subsection \<open>Example runs\<close>

text \<open>The state and the emissions at the end of a run from the initial state.\<close>

definition state_after :: "event list \<Rightarrow> state" where
  "state_after es = (case run init es of None \<Rightarrow> init | Some (s, out) \<Rightarrow> s)"

definition output_after :: "event list \<Rightarrow> emission list" where
  "output_after es = (case run init es of None \<Rightarrow> [] | Some (s, out) \<Rightarrow> out)"

text \<open>Three results of \<open>Math.random()\<close>: 1/4, 1/2 and 3/4.\<close>

definition quarter :: double where
  "quarter = (1, 2)"

definition half :: double where
  "half = (1, 1)"

definition three_quarters :: double where
  "three_quarters = (3, 2)"

definition bytes0 :: "8 word list" where
  "bytes0 = [0, 0, 0, 0, 0, 0, 0, 0, 0, 0, 0, 0, 0, 0, 0, 0]"

definition bytes1 :: "8 word list" where
  "bytes1 = [171, 1, 2, 3, 4, 5, 6, 7, 8, 9, 10, 11, 12, 13, 14, 255]"

definition room0 :: string where
  "room0 = ''00000000000000000000000000000000''"

definition room1 :: string where
  "room1 = ''ab0102030405060708090a0b0c0d0eff''"

text \<open>A creates a room (passcode 325000, roomId \<open>room0\<close>).\<close>

definition created :: "event list" where
  "created = [Connect ''A'', CreateRoom ''A'' [quarter] bytes0 0]"

text \<open>Then B joins it as Bob.\<close>

definition joined :: "event list" where
  "joined = created @ [Connect ''B'', JoinRoom ''B'' (Some ''325000'') None (Some ''Bob'')]"

text \<open>The passcodes that a list of emissions hands out in \<open>roomCreated\<close>, in order.\<close>

fun passcodes_of :: "emission list \<Rightarrow> string list" where
  "passcodes_of [] = []"
| "passcodes_of ((to, RoomCreated passcode rid expAt) # out) = passcode # passcodes_of out"
| "passcodes_of (e # out) = passcodes_of out"

text \<open>Whether an event is the firing of a timer.\<close>

fun expires :: "event \<Rightarrow> bool" where
  "expires (Expire passcode rid) = True"
| "expires e = False"

text \<open>A creates a second room while the first is live; the first draw repeats 325000.\<close>

definition created_twice :: "event list" where
  "created_twice = created @ [CreateRoom ''A'' [quarter, half] bytes1 0]"

text \<open>Whether an event is one of socket \<open>c\<close> (a timer belongs to no socket).\<close>

fun by_socket :: "socketId \<Rightarrow> event \<Rightarrow> bool" where
  "by_socket c (Connect d) = (c = d)"
| "by_socket c (CreateRoom d rnd bytes now) = (c = d)"
| "by_socket c (JoinRoom d passcode rid name) = (c = d)"
| "by_socket c (SendMessage d message) = (c = d)"
| "by_socket c (Typing d) = (c = d)"
| "by_socket c (StopTyping d) = (c = d)"
| "by_socket c (QuitRoom d) = (c = d)"
| "by_socket c (Disconnect d) = (c = d)"
| "by_socket c (Expire passcode rid) = False"

text \<open>A and B each create a room (325000 with \<open>room0\<close>, 550000 with \<open>room1\<close>).\<close>

definition two_rooms :: "event list" where
  "two_rooms = created @ [Connect ''B'', CreateRoom ''B'' [half] bytes1 0]"

text \<open>A creates a room and never joins one; B connects before and joins after.\<close>

definition creator_only :: "event list" where
  "creator_only =
     [Connect ''A'', Connect ''B'', CreateRoom ''A'' [quarter] bytes0 0,
      JoinRoom ''B'' (Some ''325000'') None (Some ''Bob'')]"

subsection \<open>Properties of a state\<close>

text \<open>
  The two maps agree: the roomId of the room under a passcode leads back to that passcode,
  and every entry of \<open>roomIds\<close> names a passcode whose room has that roomId.
\<close>

definition index_consistent :: "state \<Rightarrow> bool" where
  "index_consistent s =
     ((\<forall>p rd. rooms s p = Some rd \<longrightarrow> roomIds s (roomId rd) = Some p) \<and>
      (\<forall>r p. roomIds s r = Some p \<longrightarrow> (\<exists>rd. rooms s p = Some rd \<and> roomId rd = r)))"

text \<open>Every pending timer is the timer of a live room, and no two are for one passcode.\<close>

definition timers_live :: "state \<Rightarrow> bool" where
  "timers_live s =
     (distinct (map fst (timers s)) \<and>
      (\<forall>(p, r) \<in> set (timers s). \<exists>rd. rooms s p = Some rd \<and> roomId rd = r))"

text \<open>No transport room has more than 2 members, and only the room of a live roomId has any.\<close>

definition capacity_kept :: "state \<Rightarrow> bool" where
  "capacity_kept s =
     ((\<forall>r. fcard (adapter s r) \<le> 2) \<and> (\<forall>r. roomIds s r = None \<longrightarrow> adapter s r = {||}))"

text \<open>A and B create rooms, and \<open>randomBytes\<close> returns the same 16 bytes to both.\<close>

definition collided :: "event list" where
  "collided = created @ [Connect ''B'', CreateRoom ''B'' [half] bytes0 1000]"

text \<open>Then the same happens to C.\<close>

definition crowded :: "event list" where
  "crowded = collided @ [Connect ''C'', CreateRoom ''C'' [three_quarters] bytes0 2000]"

text \<open>After \<open>joined\<close>, B leaves.\<close>

definition left :: "event list" where
  "left = joined @ [QuitRoom ''B'']"

text \<open>B leaves, joins again on the same socket and sends a message.\<close>

definition rejoined_sends :: "event list" where
  "rejoined_sends =
     [Connect ''A'', CreateRoom ''A'' [quarter] bytes0 0,
      Connect ''B'', JoinRoom ''B'' (Some ''325000'') None (Some ''Bob''),
      QuitRoom ''B'',
      JoinRoom ''B'' (Some ''325000'') None (Some ''Bob''),
      SendMessage ''B'' ''hi'']"

text \<open>B leaves and then sends a message, \<open>typing\<close> and \<open>stopTyping\<close>.\<close>

definition left_sends :: "event list" where
  "left_sends =
     [Connect ''A'', CreateRoom ''A'' [quarter] bytes0 0,
      Connect ''B'', JoinRoom ''B'' (Some ''325000'') None (Some ''Bob''),
      QuitRoom ''B'',
      SendMessage ''B'' ''hi'', Typing ''B'', StopTyping ''B'']"

text \<open>After \<open>created_twice\<close>, the timer of the first room fires.\<close>

definition expired_first :: "event list" where
  "expired_first = created_twice @ [Expire ''325000'' room0]"

text \<open>After \<open>joined\<close>, a third socket connects.\<close>

definition three_sockets :: "event list" where
  "three_sockets = joined @ [Connect ''C'']"

section \<open>Lemmas about the model\<close>

subsection \<open>Evaluation of the handlers\<close>

lemmas transport_defs = join_def leave_def socketsLeave_def leaveAll_def socket_rooms_has_def
  socket_emit_def io_to_emit_def socket_to_emit_def

lemma createRoom_eq:
  "createRoom c rnd bytes now s =
     (case generateUniquePasscode (rooms s) rnd of
        None \<Rightarrow> None
      | Some passcode \<Rightarrow>
          Some (s\<lparr>rooms := (rooms s)(passcode \<mapsto> \<lparr>roomId = toHex bytes, expireAt = now + 2400000\<rparr>),
                  roomIds := (roomIds s)(toHex bytes \<mapsto> passcode),
                  adapter := (adapter s)(toHex bytes := finsert c (adapter s (toHex bytes))),
                  sockets := (sockets s)(c := (sockets s c)\<lparr>socket_roomId := Some (toHex bytes)\<rparr>),
                  timers := timers s @ [(passcode, toHex bytes)]\<rparr>,
                [({|c|}, RoomCreated passcode (toHex bytes) (now + 2400000))]))"
  by (simp add: createRoom_def transport_defs Let_def split: option.splits)

lemma expiry_eq:
  "expiry passcode rid s =
     (if rooms s passcode \<noteq> None then
        (s\<lparr>rooms := (rooms s)(passcode := None), roomIds := (roomIds s)(rid := None),
           adapter := (adapter s)(rid := {||})\<rparr>,
         [(adapter s rid, SystemMessage room_expired)])
      else (s, []))"
  by (simp add: expiry_def transport_defs Let_def)

lemma joinRoom_eq:
  "joinRoom c passcode rid name s =
     (case findRoom s passcode rid of
        None \<Rightarrow> (s, [({|c|}, SystemMessage ''Invalid or expired passcode.'')])
      | Some roomData \<Rightarrow>
          if 2 \<le> fcard (adapter s (roomId roomData)) \<and> c |\<notin>| adapter s (roomId roomData) then
            (s, [({|c|}, SystemMessage ''Room is full.'')])
          else
            (s\<lparr>adapter := (adapter s)(roomId roomData := finsert c (adapter s (roomId roomData))),
               sockets := (sockets s)(c := (sockets s c)\<lparr>socket_roomId := Some (roomId roomData),
                                             socket_userName := Some (js_or name ''Anonymous'')\<rparr>)\<rparr>,
             [({|c|}, JoinSuccess (roomId roomData) (roomIds s (roomId roomData)) (expireAt roomData)),
              (finsert c (adapter s (roomId roomData)),
               SystemMessage (js_or name ''Anonymous'' @ '' joined.''))]))"
  by (simp add: joinRoom_def transport_defs Let_def js_String_def split: option.splits)

lemmas candidate_eval = candidate_def double_plus_def double_times_def round53_def bits.simps
  Math_floor_def toString_def digits.simps digit_def Let_def

lemma candidate_quarter: "candidate quarter = ''325000''"
  by (simp add: quarter_def candidate_eval)

lemma candidate_half: "candidate half = ''550000''"
  by (simp add: half_def candidate_eval)

lemma candidate_three_quarters: "candidate three_quarters = ''775000''"
  by (simp add: three_quarters_def candidate_eval)

text \<open>A result at which the rounding of the doubles shows: the exact value is below 180867.\<close>

lemma candidate_rounded: "candidate (404658434518411, 52) = ''180867''"
  by (simp add: candidate_eval)

text \<open>At 0 and at the greatest double below 1 the passcodes are 100000 and 999999.\<close>

lemma candidate_ends:
  "candidate (0, 0) = ''100000''" "candidate (9007199254740991, 53) = ''999999''"
  by (simp_all add: candidate_eval)

lemma is_random_examples: "is_random quarter" "is_random half" "is_random three_quarters"
  by (simp_all add: is_random_def quarter_def half_def three_quarters_def)

lemma toHex_bytes0: "toHex bytes0 = room0"
  by (simp add: toHex_def hexDigit_def bytes0_def room0_def)

lemma toHex_bytes1: "toHex bytes1 = room1"
  by (simp add: toHex_def hexDigit_def bytes1_def room1_def)

lemma trim_325000: "trim ''325000'' = ''325000''"
  by (simp add: trim_def trimStart_def trimEnd_def strip.simps leading_def js_whitespace_def)

lemma length_bytes: "length bytes0 = 16" "length bytes1 = 16"
  by (simp_all add: bytes0_def bytes1_def)

lemma room_neq: "room0 \<noteq> room1" "room1 \<noteq> room0" "room0 \<noteq> []" "room1 \<noteq> []"
  by (simp_all add: room0_def room1_def)

lemmas eval_simps = createRoom_eq expiry_eq joinRoom_eq candidate_quarter candidate_half
  toHex_bytes0 toHex_bytes1 trim_325000 length_bytes room_neq is_random_examples findRoom_def truthy_def js_String_def js_or_def
  sendMessage_def quitRoom_def typing_def stopTyping_def disconnect_def transport_defs fcard_finsert_if fcard_fempty

lemma trim_000000: "trim ''000000'' = ''000000''"
  by (simp add: trim_def trimStart_def trimEnd_def strip.simps leading_def js_whitespace_def)

lemma trim_550000: "trim ''550000'' = ''550000''"
  by (simp add: trim_def trimStart_def trimEnd_def strip.simps leading_def js_whitespace_def)

subsection \<open>What one event does to the room store\<close>

lemma passcodes_of_append: "passcodes_of (xs @ ys) = passcodes_of xs @ passcodes_of ys"
  by (induction xs rule: passcodes_of.induct) simp_all

lemma generateUniquePasscode_free:
  "generateUniquePasscode rms rnd = Some p \<Longrightarrow> rms p = None \<and> p \<in> candidate ` set rnd"
  by (induction rnd) (auto simp: Let_def split: if_splits)

lemma generateUniquePasscode_ends:
  "(\<exists>p. generateUniquePasscode rms rnd = Some p) \<longleftrightarrow> (\<exists>r \<in> set rnd. rms (candidate r) = None)"
  by (induction rnd) (auto simp: Let_def)

lemma createRoom_passcode:
  assumes "createRoom c rnd bytes now s = Some (s', out)"
  shows "\<exists>p. generateUniquePasscode (rooms s) rnd = Some p
           \<and> out = [({|c|}, RoomCreated p (toHex bytes) (now + 2400000))]
           \<and> rooms s p = None
           \<and> rooms s' = (rooms s)(p \<mapsto> \<lparr>roomId = toHex bytes, expireAt = now + 2400000\<rparr>)"
  using assms generateUniquePasscode_free [of "rooms s" rnd]
  by (auto simp: createRoom_eq split: option.splits)

lemma step_rooms:
  assumes "step s e = Some (s', out)" and "\<not> expires e"
  shows "distinct (passcodes_of out) \<and> set (passcodes_of out) \<inter> dom (rooms s) = {}
       \<and> dom (rooms s') = dom (rooms s) \<union> set (passcodes_of out)"
proof (cases e)
  case (CreateRoom c rnd bytes now)
  with assms(1) have "createRoom c rnd bytes now s = Some (s', out)"
    by (simp split: if_splits)
  from createRoom_passcode [OF this] show ?thesis by auto
next
  case (Expire p r)
  with assms(2) show ?thesis by simp
qed (use assms(1) in \<open>auto simp: eval_simps split: if_splits option.splits\<close>)

lemma run_rooms:
  assumes "run s es = Some (s', out)" and "list_all (\<lambda>e. \<not> expires e) es"
  shows "distinct (passcodes_of out) \<and> set (passcodes_of out) \<inter> dom (rooms s) = {}
       \<and> dom (rooms s') = dom (rooms s) \<union> set (passcodes_of out)"
  using assms
proof (induction es arbitrary: s out)
  case Nil
  then show ?case by simp
next
  case (Cons e es)
  from Cons.prems(1) obtain s1 out1 out2 where
    st: "step s e = Some (s1, out1)" and rn: "run s1 es = Some (s', out2)" and o: "out = out1 @ out2"
    by (auto split: option.splits)
  from Cons.prems(2) have ne: "\<not> expires e" and nes: "list_all (\<lambda>e. \<not> expires e) es"
    by simp_all
  note a = step_rooms [OF st ne]
  note b = Cons.IH [OF rn nes]
  from a b show ?case unfolding o passcodes_of_append by auto
qed

lemma findRoom_Some: "findRoom s passcode rid = Some rd \<Longrightarrow> \<exists>p. rooms s p = Some rd"
  by (auto simp: findRoom_def split: if_splits option.splits)

lemma joined_suffix: "n @ '' joined.'' \<noteq> ''Room is full.''"
proof
  assume "n @ '' joined.'' = ''Room is full.''"
  then have "rev (n @ '' joined.'') = rev ''Room is full.''" by simp
  then show False by simp
qed

lemma toHex_nonempty: "bytes \<noteq> [] \<Longrightarrow> toHex bytes \<noteq> []"
  by (cases bytes) (simp_all add: toHex_def)

subsection \<open>Runs and the sockets they leave alone\<close>

lemma run_append:
  "run s (es1 @ es2) =
     (case run s es1 of
        None \<Rightarrow> None
      | Some (s1, out1) \<Rightarrow>
          (case run s1 es2 of None \<Rightarrow> None | Some (s2, out2) \<Rightarrow> Some (s2, out1 @ out2)))"
  by (induction es1 arbitrary: s) (auto split: option.splits)

lemma step_other_socket:
  assumes "step s e = Some (s', out)" and "\<not> by_socket c e"
  shows "sockets s' c = sockets s c"
  using assms
  by (cases e) (auto simp: eval_simps split: if_splits option.splits)

lemma run_other_socket:
  assumes "run s es = Some (s', out)" and "list_all (\<lambda>e. \<not> by_socket c e) es"
  shows "sockets s' c = sockets s c"
  using assms
proof (induction es arbitrary: s out)
  case Nil
  then show ?case by simp
next
  case (Cons e es)
  from Cons.prems(1) obtain s1 out1 out2 where
    st: "step s e = Some (s1, out1)" and rn: "run s1 es = Some (s', out2)"
    by (auto split: option.splits)
  from Cons.prems(2) have "\<not> by_socket c e" and "list_all (\<lambda>e. \<not> by_socket c e) es"
    by simp_all
  with st rn Cons.IH show ?case
    using step_other_socket by metis
qed

lemma run_fresh_run: "run_fresh s es = Some x \<Longrightarrow> run s es = Some x"
  by (induction es arbitrary: s x) (auto split: if_splits option.splits)

lemma run_state_output:
  "run init es \<noteq> None \<Longrightarrow> run init es = Some (state_after es, output_after es)"
  by (auto simp: state_after_def output_after_def)

lemma run_fresh_state_output:
  "run_fresh init es \<noteq> None \<Longrightarrow> run_fresh init es = Some (state_after es, output_after es)"
  using run_fresh_run [of init es] by (auto simp: state_after_def output_after_def)

subsection \<open>Invariants of runs with fresh roomIds\<close>

lemma init_invariants: "index_consistent init" "timers_live init" "capacity_kept init"
  by (simp_all add: index_consistent_def timers_live_def capacity_kept_def init_def fcard_fempty)

lemma createRoom_index:
  assumes cr: "createRoom c rnd bytes now s = Some (s', out)"
    and fresh: "roomIds s (toHex bytes) = None"
    and ic: "index_consistent s" and tl: "timers_live s"
  shows "index_consistent s' \<and> timers_live s'"
proof -
  let ?rid = "toHex bytes"
  from cr obtain p where g: "generateUniquePasscode (rooms s) rnd = Some p"
    and s': "s' = s\<lparr>rooms := (rooms s)(p \<mapsto> \<lparr>roomId = ?rid, expireAt = now + 2400000\<rparr>),
                  roomIds := (roomIds s)(?rid \<mapsto> p),
                  adapter := (adapter s)(?rid := finsert c (adapter s ?rid)),
                  sockets := (sockets s)(c := (sockets s c)\<lparr>socket_roomId := Some ?rid\<rparr>),
                  timers := timers s @ [(p, ?rid)]\<rparr>"
    by (auto simp: createRoom_eq split: option.splits)
  from generateUniquePasscode_free [OF g] have free: "rooms s p = None" by simp
  have a: "\<And>q rd. rooms s q = Some rd \<Longrightarrow> roomIds s (roomId rd) = Some q"
    and b: "\<And>r q. roomIds s r = Some q \<Longrightarrow> \<exists>rd. rooms s q = Some rd \<and> roomId rd = r"
    using ic unfolding index_consistent_def by blast+
  have "index_consistent s'"
    unfolding index_consistent_def
  proof (intro conjI allI impI)
    fix q rd assume "rooms s' q = Some rd"
    then show "roomIds s' (roomId rd) = Some q"
      using a [of q rd] fresh free by (auto simp: s' split: if_splits)
  next
    fix r q assume "roomIds s' r = Some q"
    then show "\<exists>rd. rooms s' q = Some rd \<and> roomId rd = r"
      using b [of r q] fresh free by (auto simp: s' split: if_splits)
  qed
  moreover have "timers_live s'"
  proof -
    from tl have d: "distinct (map fst (timers s))"
      and l: "\<And>q r. (q, r) \<in> set (timers s) \<Longrightarrow> \<exists>rd. rooms s q = Some rd \<and> roomId rd = r"
      unfolding timers_live_def by auto
    from l free have "p \<notin> fst ` set (timers s)" by force
    with d have "distinct (map fst (timers s'))" by (simp add: s')
    moreover have "\<forall>(q, r) \<in> set (timers s'). \<exists>rd. rooms s' q = Some rd \<and> roomId rd = r"
    proof (intro ballI, clarify)
      fix q r assume "(q, r) \<in> set (timers s')"
      then consider "(q, r) \<in> set (timers s)" | "q = p" "r = ?rid" by (auto simp: s')
      then show "\<exists>rd. rooms s' q = Some rd \<and> roomId rd = r"
      proof cases
        case 1
        from l [OF 1] free have "q \<noteq> p" by auto
        with l [OF 1] show ?thesis by (simp add: s')
      next
        case 2
        then show ?thesis by (simp add: s')
      qed
    qed
    ultimately show ?thesis unfolding timers_live_def by blast
  qed
  ultimately show ?thesis by blast
qed

lemma expiry_index:
  assumes ex: "expiry p r (s\<lparr>timers := remove1 (p, r) (timers s)\<rparr>) = (s', out)"
    and pending: "(p, r) \<in> set (timers s)"
    and ic: "index_consistent s" and tl: "timers_live s"
  shows "index_consistent s' \<and> timers_live s'"
proof -
  from tl have d: "distinct (map fst (timers s))"
    and l: "\<And>q r. (q, r) \<in> set (timers s) \<Longrightarrow> \<exists>rd. rooms s q = Some rd \<and> roomId rd = r"
    unfolding timers_live_def by auto
  from l [OF pending] obtain rd where rd: "rooms s p = Some rd" "roomId rd = r" by blast
  with ex have s': "s' = s\<lparr>timers := remove1 (p, r) (timers s), rooms := (rooms s)(p := None),
      roomIds := (roomIds s)(r := None), adapter := (adapter s)(r := {||})\<rparr>"
    by (auto simp: expiry_eq)
  have a: "\<And>q rd. rooms s q = Some rd \<Longrightarrow> roomIds s (roomId rd) = Some q"
    and b: "\<And>r q. roomIds s r = Some q \<Longrightarrow> \<exists>rd. rooms s q = Some rd \<and> roomId rd = r"
    using ic unfolding index_consistent_def by blast+
  have "index_consistent s'"
    unfolding index_consistent_def
  proof (intro conjI allI impI)
    fix q rd' assume "rooms s' q = Some rd'"
    then have q: "q \<noteq> p" "rooms s q = Some rd'" by (auto simp: s' split: if_splits)
    from a [OF q(2)] a [OF rd(1)] q(1) rd(2) have "roomId rd' \<noteq> r" by auto
    with a [OF q(2)] show "roomIds s' (roomId rd') = Some q" by (simp add: s')
  next
    fix r' q assume "roomIds s' r' = Some q"
    then have r': "r' \<noteq> r" "roomIds s r' = Some q" by (auto simp: s' split: if_splits)
    from b [OF r'(2)] obtain rd' where rd': "rooms s q = Some rd'" "roomId rd' = r'" by blast
    with r'(1) rd have "q \<noteq> p" by auto
    with rd' show "\<exists>rd. rooms s' q = Some rd \<and> roomId rd = r'" by (simp add: s')
  qed
  moreover have "timers_live s'"
  proof -
    from d have dt: "distinct (timers s)" and inj: "inj_on fst (set (timers s))"
      by (simp_all add: distinct_map)
    have "distinct (map fst (remove1 (p, r) (timers s)))"
      using dt inj by (auto simp: distinct_map intro: inj_on_subset)
    moreover have "\<forall>(q, r') \<in> set (remove1 (p, r) (timers s)). \<exists>rd. rooms s' q = Some rd \<and> roomId rd = r'"
    proof (intro ballI, clarify)
      fix q r' assume m: "(q, r') \<in> set (remove1 (p, r) (timers s))"
      with dt have n: "(q, r') \<in> set (timers s)" "(q, r') \<noteq> (p, r)" by auto
      with inj_onD [OF inj, of "(q, r')" "(p, r)"] pending have "q \<noteq> p" by auto
      with l [OF n(1)] show "\<exists>rd. rooms s' q = Some rd \<and> roomId rd = r'" by (simp add: s')
    qed
    ultimately show ?thesis unfolding timers_live_def by (simp add: s')
  qed
  ultimately show ?thesis by blast
qed

lemma step_store:
  assumes "step s e = Some (s', out)"
  shows "(\<exists>c rnd bytes now. e = CreateRoom c rnd bytes now) \<or> (\<exists>p r. e = Expire p r)
       \<or> rooms s' = rooms s \<and> roomIds s' = roomIds s \<and> timers s' = timers s"
  using assms
  by (cases e) (auto simp: eval_simps split: if_splits option.splits)

lemma step_index:
  assumes st: "step s e = Some (s', out)" and fresh: "fresh_roomId s e"
    and ic: "index_consistent s" and tl: "timers_live s"
  shows "index_consistent s' \<and> timers_live s'"
proof -
  consider (create) c rnd bytes now where "e = CreateRoom c rnd bytes now"
    | (expire) p r where "e = Expire p r"
    | (other) "rooms s' = rooms s" "roomIds s' = roomIds s" "timers s' = timers s"
    using step_store [OF st] by blast
  then show ?thesis
  proof cases
    case create
    with st fresh have "createRoom c rnd bytes now s = Some (s', out)"
      and "roomIds s (toHex bytes) = None"
      by (auto split: if_splits)
    from createRoom_index [OF this ic tl] show ?thesis .
  next
    case expire
    with st have "expiry p r (s\<lparr>timers := remove1 (p, r) (timers s)\<rparr>) = (s', out)"
      and "(p, r) \<in> set (timers s)"
      by (auto split: if_splits)
    from expiry_index [OF this ic tl] show ?thesis .
  next
    case other
    with ic tl show ?thesis
      by (simp add: index_consistent_def timers_live_def)
  qed
qed

lemma capacity_keptI:
  assumes "\<And>r. fcard (adapter s r) \<le> 2" and "\<And>r. roomIds s r = None \<Longrightarrow> adapter s r = {||}"
  shows "capacity_kept s"
  using assms unfolding capacity_kept_def by blast

lemma capacity_kept_same:
  assumes "capacity_kept s" and "adapter s' = adapter s" and "roomIds s' = roomIds s"
  shows "capacity_kept s'"
  using assms unfolding capacity_kept_def by simp

lemma step_capacity:
  assumes st: "step s e = Some (s', out)" and fresh: "fresh_roomId s e"
    and ic: "index_consistent s" and ck: "capacity_kept s"
  shows "capacity_kept s'"
proof -
  from ck have le: "\<And>r. fcard (adapter s r) \<le> 2"
    and em: "\<And>r. roomIds s r = None \<Longrightarrow> adapter s r = {||}"
    unfolding capacity_kept_def by blast+
  have minus: "fcard (adapter s r |-| {|c|}) \<le> 2" for r c
    using le [of r] fcard_fminus1_le [of "adapter s r" c] by linarith
  show ?thesis
  proof (cases e)
    case (Connect c)
    with st have "adapter s' = adapter s" "roomIds s' = roomIds s"
      by (auto split: if_splits)
    with ck show ?thesis by (rule capacity_kept_same)
  next
    case (CreateRoom c rnd bytes now)
    with st fresh have cr: "createRoom c rnd bytes now s = Some (s', out)"
      and fr: "roomIds s (toHex bytes) = None"
      by (auto split: if_splits)
    from em [OF fr] have e0: "adapter s (toHex bytes) = {||}" .
    from cr obtain p where
      a': "adapter s' = (adapter s)(toHex bytes := finsert c (adapter s (toHex bytes)))"
      and r': "roomIds s' = (roomIds s)(toHex bytes \<mapsto> p)"
      by (auto simp: createRoom_eq split: option.splits)
    show ?thesis
    proof (rule capacity_keptI)
      fix r show "fcard (adapter s' r) \<le> 2"
        using le [of r] by (simp add: a' e0 fcard_finsert_if fcard_fempty)
    next
      fix r assume "roomIds s' r = None"
      then show "adapter s' r = {||}"
        using em [of r] by (simp add: a' r' split: if_splits)
    qed
  next
    case (JoinRoom c passcode rid name)
    with st have j: "joinRoom c passcode rid name s = (s', out)"
      by (auto split: if_splits)
    show ?thesis
    proof (cases "findRoom s passcode rid")
      case None
      with j ck show ?thesis by (simp add: joinRoom_eq)
    next
      case (Some rd)
      from findRoom_Some [OF Some] obtain p where "rooms s p = Some rd" by blast
      with ic have live: "roomIds s (roomId rd) = Some p"
        unfolding index_consistent_def by blast
      show ?thesis
      proof (cases "2 \<le> fcard (adapter s (roomId rd)) \<and> c |\<notin>| adapter s (roomId rd)")
        case True
        with j Some ck show ?thesis by (simp add: joinRoom_eq)
      next
        case False
        with j Some have a': "adapter s' = (adapter s)(roomId rd := finsert c (adapter s (roomId rd)))"
          and r': "roomIds s' = roomIds s"
          by (auto simp: joinRoom_eq)
        from False le [of "roomId rd"] have f: "fcard (finsert c (adapter s (roomId rd))) \<le> 2"
          by (auto simp: fcard_finsert_if)
        show ?thesis
        proof (rule capacity_keptI)
          fix r show "fcard (adapter s' r) \<le> 2"
            using le [of r] f by (simp add: a')
        next
          fix r assume "roomIds s' r = None"
          then show "adapter s' r = {||}"
            using em [of r] live by (auto simp: a' r')
        qed
      qed
    qed
  next
    case (SendMessage c message)
    with st have "s' = s" by (auto simp: sendMessage_def split: if_splits)
    with ck show ?thesis by simp
  next
    case (Typing c)
    with st have "s' = s" by (auto simp: typing_def split: if_splits)
    with ck show ?thesis by simp
  next
    case (StopTyping c)
    with st have "s' = s" by (auto simp: stopTyping_def split: if_splits)
    with ck show ?thesis by simp
  next
    case (QuitRoom c)
    with st have q: "quitRoom c s = (s', out)" by (auto split: if_splits)
    then obtain r0 where l: "s' = s \<or> s' = leave c r0 s"
      by (auto simp: quitRoom_def split: if_splits)
    then have r': "roomIds s' = roomIds s"
      by (auto simp: leave_def)
    from l have a': "adapter s' r = adapter s r \<or> adapter s' r = adapter s r |-| {|c|}" for r
      by (cases "r = r0") (auto simp: leave_def)
    show ?thesis
    proof (rule capacity_keptI)
      fix r from a' [of r] show "fcard (adapter s' r) \<le> 2"
      proof
        assume "adapter s' r = adapter s r"
        with le [of r] show ?thesis by simp
      next
        assume "adapter s' r = adapter s r |-| {|c|}"
        with minus [of r c] show ?thesis by simp
      qed
    next
      fix r assume "roomIds s' r = None"
      with em [of r] have "adapter s r = {||}" by (simp add: r')
      with a' [of r] show "adapter s' r = {||}" by simp
    qed
  next
    case (Disconnect c)
    with st have d: "disconnect c (leaveAll c (s\<lparr>connected := connected s |-| {|c|}\<rparr>)) = (s', out)"
      by (auto split: if_splits)
    then have "s' = leaveAll c (s\<lparr>connected := connected s |-| {|c|}\<rparr>)"
      by (auto simp: disconnect_def split: if_splits)
    then have a': "\<And>r. adapter s' r = adapter s r |-| {|c|}"
      and r': "roomIds s' = roomIds s"
      by (simp_all add: leaveAll_def)
    show ?thesis
    proof (rule capacity_keptI)
      fix r show "fcard (adapter s' r) \<le> 2"
        using minus [of r c] by (simp add: a')
    next
      fix r assume "roomIds s' r = None"
      then show "adapter s' r = {||}"
        using em [of r] by (simp add: a' r')
    qed
  next
    case (Expire p r0)
    with st have x: "expiry p r0 (s\<lparr>timers := remove1 (p, r0) (timers s)\<rparr>) = (s', out)"
      by (auto split: if_splits)
    then consider "adapter s' = adapter s" "roomIds s' = roomIds s"
      | "adapter s' = (adapter s)(r0 := {||})" "roomIds s' = (roomIds s)(r0 := None)"
      by (auto simp: expiry_eq split: if_splits)
    then show ?thesis
    proof cases
      case 1
      with ck show ?thesis by (rule capacity_kept_same)
    next
      case 2
      show ?thesis
      proof (rule capacity_keptI)
        fix r show "fcard (adapter s' r) \<le> 2"
          using le [of r] by (simp add: 2 fcard_fempty)
      next
        fix r assume "roomIds s' r = None"
        then show "adapter s' r = {||}"
          using em [of r] by (simp add: 2 split: if_splits)
      qed
    qed
  qed
qed

lemma run_fresh_invariants:
  assumes "run_fresh s es = Some (s', out)"
    and "index_consistent s" and "timers_live s" and "capacity_kept s"
  shows "index_consistent s' \<and> timers_live s' \<and> capacity_kept s'"
  using assms
proof (induction es arbitrary: s out)
  case Nil
  then show ?case by simp
next
  case (Cons e es)
  from Cons.prems(1) obtain s1 out1 out2 where
    fr: "fresh_roomId s e" and st: "step s e = Some (s1, out1)"
    and rn: "run_fresh s1 es = Some (s', out2)"
    by (auto split: if_splits option.splits)
  from step_index [OF st fr Cons.prems(2,3)] step_capacity [OF st fr Cons.prems(2,4)]
  have "index_consistent s1" "timers_live s1" "capacity_kept s1" by simp_all
  from Cons.IH [OF rn this] show ?case .
qed

subsection \<open>The example runs\<close>

lemma run_created: "run init created \<noteq> None"
  by (simp add: created_def init_def eval_simps)

lemma run_joined: "run init joined \<noteq> None"
  by (simp add: created_def joined_def init_def eval_simps)

lemma joined_rooms: "rooms (state_after joined) = [''325000'' \<mapsto> \<lparr>roomId = room0, expireAt = 2400000\<rparr>]"
  by (simp add: state_after_def created_def joined_def init_def eval_simps)

lemma joined_roomIds: "roomIds (state_after joined) = [room0 \<mapsto> ''325000'']"
  by (simp add: state_after_def created_def joined_def init_def eval_simps)

lemma joined_adapter: "adapter (state_after joined) = (\<lambda>r. {||})(room0 := {|''B'', ''A''|})"
  by (simp add: state_after_def created_def joined_def init_def eval_simps)

lemma joined_output: "output_after joined =
   [({|''A''|}, RoomCreated ''325000'' room0 2400000),
    ({|''B''|}, JoinSuccess room0 (Some ''325000'') 2400000),
    ({|''B'', ''A''|}, SystemMessage ''Bob joined.'')]"
  by (simp add: output_after_def created_def joined_def init_def eval_simps)

lemma joined_sockets:
  "sockets (state_after joined) ''B'' = \<lparr>socket_roomId = Some room0, socket_userName = Some ''Bob''\<rparr>"
  by (simp add: state_after_def joined_def created_def init_def eval_simps)

lemma created_facts:
  "adapter (state_after created) = (\<lambda>r. {||})(room0 := {|''A''|})"
  "sockets (state_after created) ''A'' = \<lparr>socket_roomId = Some room0, socket_userName = None\<rparr>"
  by (simp_all add: state_after_def created_def init_def eval_simps)

lemma created_rooms:
  "rooms (state_after created) = [''325000'' \<mapsto> \<lparr>roomId = room0, expireAt = 2400000\<rparr>]"
  by (simp add: state_after_def created_def init_def eval_simps)

lemma created_twice_run:
  "run init created_twice = Some (state_after created_twice, output_after created_twice)"
  by (simp add: state_after_def output_after_def created_twice_def created_def init_def eval_simps)

lemma created_twice_output:
  "output_after created_twice =
     [({|''A''|}, RoomCreated ''325000'' room0 2400000),
      ({|''A''|}, RoomCreated ''550000'' room1 2400000)]"
  by (simp add: output_after_def created_twice_def created_def init_def eval_simps)

lemma created_twice_step:
  "createRoom ''A'' [quarter, half] bytes1 0 (state_after created) =
     Some (state_after created_twice, [({|''A''|}, RoomCreated ''550000'' room1 2400000)])"
  by (simp add: state_after_def created_twice_def created_def init_def eval_simps)

lemma two_rooms_facts:
  "rooms (state_after two_rooms) =
     [''325000'' \<mapsto> \<lparr>roomId = room0, expireAt = 2400000\<rparr>,
      ''550000'' \<mapsto> \<lparr>roomId = room1, expireAt = 2400000\<rparr>]"
  "adapter (state_after two_rooms) = (\<lambda>r. {||})(room0 := {|''A''|}, room1 := {|''B''|})"
  "sockets (state_after two_rooms) ''A'' = \<lparr>socket_roomId = Some room0, socket_userName = None\<rparr>"
  by (simp_all add: state_after_def two_rooms_def created_def init_def eval_simps)

lemma creator_only_run:
  "run init creator_only = Some (state_after creator_only, output_after creator_only)"
  by (simp add: state_after_def output_after_def creator_only_def init_def eval_simps)

lemma creator_only_adapter:
  "adapter (state_after creator_only) room0 = {|''B'', ''A''|}"
  by (simp add: state_after_def creator_only_def init_def eval_simps)

lemma left_facts:
  "rooms (state_after left) = [''325000'' \<mapsto> \<lparr>roomId = room0, expireAt = 2400000\<rparr>]"
  "adapter (state_after left) room0 = {|''A''|}"
  "sockets (state_after left) ''B'' = \<lparr>socket_roomId = Some room0, socket_userName = Some ''Bob''\<rparr>"
  by (auto simp add: state_after_def left_def joined_def created_def init_def eval_simps)

lemma left_step:
  "quitRoom ''B'' (state_after joined) =
     (state_after left, [({|''A''|}, SystemMessage ''Bob left.'')])"
  by (auto simp add: state_after_def left_def joined_def created_def init_def eval_simps)

lemma collided_run: "run init collided \<noteq> None"
  by (simp add: collided_def created_def init_def eval_simps)

lemma collided_facts:
  "rooms (state_after collided) ''325000'' = Some \<lparr>roomId = room0, expireAt = 2400000\<rparr>"
  "roomIds (state_after collided) room0 = Some ''550000''"
  by (simp_all add: state_after_def collided_def created_def init_def eval_simps)

lemma crowded_run: "run init crowded \<noteq> None"
  by (simp add: crowded_def collided_def created_def init_def eval_simps candidate_three_quarters)

lemma crowded_facts:
  "roomIds (state_after crowded) room0 = Some ''775000''"
  "adapter (state_after crowded) room0 = {|''C'', ''B'', ''A''|}"
  by (simp_all add: state_after_def crowded_def collided_def created_def init_def eval_simps
      candidate_three_quarters)

lemma expired_first_run: "run_fresh init expired_first \<noteq> None"
  by (simp add: expired_first_def created_twice_def created_def init_def eval_simps)

lemma three_sockets_run: "run_fresh init three_sockets \<noteq> None"
  by (simp add: three_sockets_def joined_def created_def init_def eval_simps)

lemma three_sockets_facts:
  "rooms (state_after three_sockets) = [''325000'' \<mapsto> \<lparr>roomId = room0, expireAt = 2400000\<rparr>]"
  "adapter (state_after three_sockets) room0 = {|''B'', ''A''|}"
  by (simp_all add: state_after_def three_sockets_def joined_def created_def init_def eval_simps)

section \<open>The claims\<close>

text \<open>
  Claim C1 (amended). In every state that a run reaches in which each \<open>createRoom\<close> draws a
  roomId that is not a key of \<open>roomIds\<close> at that moment, the two maps agree: the roomId of
  the room under a passcode leads back to that passcode, and every entry of \<open>roomIds\<close> names
  a passcode whose room has that roomId.
\<close>

theorem index_consistent_fresh:
  assumes "run_fresh init es = Some (s, out)"
  shows "index_consistent s"
  using run_fresh_invariants [OF assms init_invariants] by simp

theorem index_consistent_fresh_witness:
  "run_fresh init expired_first = Some (state_after expired_first, output_after expired_first)
 \<and> index_consistent (state_after expired_first)"
proof -
  have r: "run_fresh init expired_first = Some (state_after expired_first, output_after expired_first)"
    using expired_first_run by (rule run_fresh_state_output)
  from r index_consistent_fresh [OF r] show ?thesis by blast
qed

text \<open>
  The claim as it stands covers every reachable state. The run \<open>collided\<close>, in which
  \<open>randomBytes\<close> gives two rooms the same roomId, reaches a state where passcode 325000 has
  a room whose roomId leads to passcode 550000.
\<close>

theorem collided_not_consistent:
  "reachable (state_after collided) \<and> \<not> index_consistent (state_after collided)"
proof
  from run_state_output [OF collided_run] show "reachable (state_after collided)"
    unfolding reachable_def by blast
next
  show "\<not> index_consistent (state_after collided)"
  proof
    assume "index_consistent (state_after collided)"
    with collided_facts(1) have "roomIds (state_after collided) room0 = Some ''325000''"
      unfolding index_consistent_def by fastforce
    with collided_facts(2) show False by simp
  qed
qed

text \<open>
  Claim C2 (amended). In every state that a run reaches in which each \<open>createRoom\<close> draws a
  roomId that is not a key of \<open>roomIds\<close> at that moment, no transport room has more than 2
  members. In any state, a socket that is not in the transport room of the room it asks to join,
  when that transport room has 2 members or more, is sent "Room is full." and nothing else
  happens: the state, with the transport rooms and the socket object, is unchanged.
\<close>

theorem capacity_fresh:
  "(run_fresh init es = Some (s, out) \<longrightarrow> fcard (adapter s r) \<le> 2)
 \<and> (findRoom s' passcode rid = Some rd \<and> 2 \<le> fcard (adapter s' (roomId rd))
      \<and> c |\<notin>| adapter s' (roomId rd) \<longrightarrow>
      joinRoom c passcode rid name s' = (s', [({|c|}, SystemMessage ''Room is full.'')]))"
proof (intro conjI impI)
  assume "run_fresh init es = Some (s, out)"
  from run_fresh_invariants [OF this init_invariants] show "fcard (adapter s r) \<le> 2"
    unfolding capacity_kept_def by blast
next
  assume "findRoom s' passcode rid = Some rd \<and> 2 \<le> fcard (adapter s' (roomId rd))
      \<and> c |\<notin>| adapter s' (roomId rd)"
  then show "joinRoom c passcode rid name s' = (s', [({|c|}, SystemMessage ''Room is full.'')])"
    by (simp add: joinRoom_eq)
qed

theorem capacity_fresh_witness:
  "run_fresh init three_sockets = Some (state_after three_sockets, output_after three_sockets)
 \<and> fcard (adapter (state_after three_sockets) room0) \<le> 2
 \<and> findRoom (state_after three_sockets) (Some ''325000'') None =
      Some \<lparr>roomId = room0, expireAt = 2400000\<rparr>
 \<and> 2 \<le> fcard (adapter (state_after three_sockets) room0)
 \<and> ''C'' |\<notin>| adapter (state_after three_sockets) room0
 \<and> joinRoom ''C'' (Some ''325000'') None (Some ''Carol'') (state_after three_sockets) =
      (state_after three_sockets, [({|''C''|}, SystemMessage ''Room is full.'')])"
proof -
  let ?s = "state_after three_sockets"
  have r: "run_fresh init three_sockets = Some (?s, output_after three_sockets)"
    using three_sockets_run by (rule run_fresh_state_output)
  have f: "findRoom ?s (Some ''325000'') None = Some \<lparr>roomId = room0, expireAt = 2400000\<rparr>"
    by (simp add: findRoom_def truthy_def js_String_def trim_325000 three_sockets_facts)
  have n: "2 \<le> fcard (adapter ?s (roomId \<lparr>roomId = room0, expireAt = 2400000\<rparr>))"
    and m: "''C'' |\<notin>| adapter ?s (roomId \<lparr>roomId = room0, expireAt = 2400000\<rparr>)"
    by (simp_all add: three_sockets_facts fcard_finsert_if fcard_fempty)
  note t = capacity_fresh [where es = three_sockets and s = ?s and out = "output_after three_sockets"
      and r = room0 and s' = ?s and passcode = "Some ''325000''" and rid = None
      and rd = "\<lparr>roomId = room0, expireAt = 2400000\<rparr>" and c = "''C''" and name = "Some ''Carol''"]
  from t r have le: "fcard (adapter ?s room0) \<le> 2" by blast
  from t f n m have j: "joinRoom ''C'' (Some ''325000'') None (Some ''Carol'') ?s =
      (?s, [({|''C''|}, SystemMessage ''Room is full.'')])" by blast
  from n m have n': "2 \<le> fcard (adapter ?s room0)" and m': "''C'' |\<notin>| adapter ?s room0"
    by simp_all
  from r le f n' m' j show ?thesis by blast
qed

text \<open>
  The claim as it stands covers every reachable state. The run \<open>crowded\<close>, in which
  \<open>randomBytes\<close> gives three rooms the same roomId, reaches a state where the transport
  room of that live roomId has 3 members.
\<close>

theorem crowded_three_members:
  "reachable (state_after crowded) \<and> roomIds (state_after crowded) room0 = Some ''775000''
 \<and> fcard (adapter (state_after crowded) room0) = 3"
proof (intro conjI)
  from run_state_output [OF crowded_run] show "reachable (state_after crowded)"
    unfolding reachable_def by blast
next
  show "roomIds (state_after crowded) room0 = Some ''775000''"
    by (rule crowded_facts)
next
  show "fcard (adapter (state_after crowded) room0) = 3"
    by (simp add: crowded_facts fcard_finsert_if fcard_fempty)
qed

text \<open>
  Claim C3. When the callback runs and \<open>rooms\<close> has the passcode, both map entries are gone
  afterwards, so that neither the passcode (whatever white space surrounds it) nor the roomId
  finds a room; the members of the transport room at that moment are sent "Room expired." in
  one emission, nobody else is, and the transport room is empty afterwards. When \<open>rooms\<close>
  does not have the passcode, the state is unchanged and nothing is emitted.
\<close>

theorem expiry_effect:
  assumes "expiry passcode rid s = (s', out)"
  shows "(rooms s passcode \<noteq> None \<longrightarrow>
            rooms s' passcode = None \<and> roomIds s' rid = None
          \<and> (\<forall>pc. trim pc = passcode \<longrightarrow> findRoom s' (Some pc) None = None)
          \<and> findRoom s' None (Some rid) = None
          \<and> out = [(adapter s rid, SystemMessage room_expired)]
          \<and> (\<forall>c. c |\<in>| adapter s rid \<longrightarrow> received c out = [SystemMessage room_expired])
          \<and> (\<forall>c. c |\<notin>| adapter s rid \<longrightarrow> received c out = [])
          \<and> adapter s' rid = {||})
       \<and> (rooms s passcode = None \<longrightarrow> s' = s \<and> out = [])"
  using assms
  by (auto simp: expiry_eq findRoom_def truthy_def js_String_def received_def split: if_splits)

theorem expiry_effect_witness:
  "rooms (state_after joined) ''325000'' \<noteq> None \<and>
   snd (expiry ''325000'' room0 (state_after joined)) = [({|''B'', ''A''|}, SystemMessage room_expired)] \<and>
   received ''A'' (snd (expiry ''325000'' room0 (state_after joined))) = [SystemMessage room_expired] \<and>
   adapter (fst (expiry ''325000'' room0 (state_after joined))) room0 = {||} \<and>
   findRoom (fst (expiry ''325000'' room0 (state_after joined))) (Some '' 325000 '') None = None \<and>
   rooms init ''325000'' = None \<and>
   expiry ''325000'' room0 init = (init, [])"
proof -
  have live: "rooms (state_after joined) ''325000'' \<noteq> None"
    by (simp add: joined_rooms)
  have gone: "rooms init ''325000'' = None"
    by (simp add: init_def)
  have tr: "trim '' 325000 '' = ''325000''"
    by (simp add: trim_def trimStart_def trimEnd_def strip.simps leading_def js_whitespace_def)
  have mem: "''A'' |\<in>| adapter (state_after joined) room0"
    by (simp add: joined_adapter)
  obtain s1 out1 where e1: "expiry ''325000'' room0 (state_after joined) = (s1, out1)"
    by (cases "expiry ''325000'' room0 (state_after joined)")
  obtain s2 out2 where e2: "expiry ''325000'' room0 init = (s2, out2)"
    by (cases "expiry ''325000'' room0 init")
  from expiry_effect [OF e1] live tr mem
  have "out1 = [(adapter (state_after joined) room0, SystemMessage room_expired)]"
    and "received ''A'' out1 = [SystemMessage room_expired]"
    and "adapter s1 room0 = {||}"
    and "findRoom s1 (Some '' 325000 '') None = None"
    by blast+
  moreover from expiry_effect [OF e2] gone have "s2 = init" and "out2 = []"
    by blast+
  ultimately show ?thesis
    using live gone e1 e2 by (simp add: joined_adapter)
qed

text \<open>
  Claim C4. \<open>generateUniquePasscode\<close>, when it returns, returns a passcode that is not a key of
  \<open>rooms\<close> (and is one of the candidates it drew). The passcode that \<open>createRoom\<close> hands out
  is therefore not the passcode of any room that is live at that moment, and the rooms that were
  live stay so. Over a run in which no timer fires, so that every room created in it stays live,
  the passcodes handed out are pairwise distinct and distinct from those of the rooms live at the
  start.
\<close>

theorem passcodes_distinct:
  "(generateUniquePasscode rms rnd = Some p \<longrightarrow> rms p = None \<and> p \<in> candidate ` set rnd)
 \<and> (createRoom c rnd1 bytes now s1 = Some (s2, out1) \<longrightarrow>
       (\<exists>q. out1 = [({|c|}, RoomCreated q (toHex bytes) (now + 2400000))]
            \<and> q \<notin> dom (rooms s1) \<and> dom (rooms s2) = insert q (dom (rooms s1))))
 \<and> (run s es = Some (s', out) \<and> list_all (\<lambda>e. \<not> expires e) es \<longrightarrow>
       distinct (passcodes_of out) \<and> set (passcodes_of out) \<inter> dom (rooms s) = {}
       \<and> dom (rooms s') = dom (rooms s) \<union> set (passcodes_of out))"
proof (intro conjI impI)
  assume "generateUniquePasscode rms rnd = Some p"
  from generateUniquePasscode_free [OF this]
  show "rms p = None" and "p \<in> candidate ` set rnd" by simp_all
next
  assume "createRoom c rnd1 bytes now s1 = Some (s2, out1)"
  from createRoom_passcode [OF this]
  show "\<exists>q. out1 = [({|c|}, RoomCreated q (toHex bytes) (now + 2400000))]
            \<and> q \<notin> dom (rooms s1) \<and> dom (rooms s2) = insert q (dom (rooms s1))"
    by auto
next
  assume "run s es = Some (s', out) \<and> list_all (\<lambda>e. \<not> expires e) es"
  then have r: "run s es = Some (s', out)" and l: "list_all (\<lambda>e. \<not> expires e) es" by simp_all
  from run_rooms [OF r l]
  show "distinct (passcodes_of out)" and "set (passcodes_of out) \<inter> dom (rooms s) = {}"
    and "dom (rooms s') = dom (rooms s) \<union> set (passcodes_of out)" by simp_all
qed

theorem passcodes_distinct_witness:
  "generateUniquePasscode (rooms (state_after created)) [quarter, half] = Some ''550000''
 \<and> rooms (state_after created) ''550000'' = None
 \<and> createRoom ''A'' [quarter, half] bytes1 0 (state_after created) =
     Some (state_after created_twice, [({|''A''|}, RoomCreated ''550000'' room1 2400000)])
 \<and> run init created_twice = Some (state_after created_twice, output_after created_twice)
 \<and> list_all (\<lambda>e. \<not> expires e) created_twice
 \<and> passcodes_of (output_after created_twice) = [''325000'', ''550000'']
 \<and> distinct (passcodes_of (output_after created_twice))
 \<and> dom (rooms (state_after created_twice)) = {''325000'', ''550000''}"
proof -
  have g: "generateUniquePasscode (rooms (state_after created)) [quarter, half] = Some ''550000''"
    by (simp add: created_rooms candidate_quarter candidate_half)
  have l: "list_all (\<lambda>e. \<not> expires e) created_twice"
    by (simp add: created_twice_def created_def)
  have p: "passcodes_of (output_after created_twice) = [''325000'', ''550000'']"
    by (simp add: created_twice_output)
  note t = passcodes_distinct [where rms = "rooms (state_after created)" and rnd = "[quarter, half]"
      and p = "''550000''" and c = "''A''" and ?rnd1.0 = "[quarter, half]" and bytes = bytes1 and now = 0
      and ?s1.0 = "state_after created" and ?s2.0 = "state_after created_twice"
      and ?out1.0 = "[({|''A''|}, RoomCreated ''550000'' room1 2400000)]"
      and s = init and es = created_twice and s' = "state_after created_twice"
      and out = "output_after created_twice"]
  from t g have n: "rooms (state_after created) ''550000'' = None" by blast
  from t created_twice_step
  have "dom (rooms (state_after created_twice)) = insert ''550000'' (dom (rooms (state_after created)))"
    by auto
  then have m: "dom (rooms (state_after created_twice)) = {''325000'', ''550000''}"
    by (auto simp: created_rooms)
  from t created_twice_run l have d: "distinct (passcodes_of (output_after created_twice))"
    by blast
  from g n created_twice_step created_twice_run l p d m show ?thesis by blast
qed

text \<open>
  Claim C5. After \<open>quitRoom\<close> the socket is to have no room any more, so that no later
  \<open>sendMessage\<close>, \<open>typing\<close> or \<open>stopTyping\<close> of it is relayed to the room. The code does
  not do that: \<open>quitRoom\<close> (lines 123 to 127) takes the socket out of the transport room and
  leaves \<open>socket.roomId\<close> as it is, and \<open>socket.roomId\<close> is what the guards of lines 111,
  116 and 120 test. In the run \<open>left_sends\<close> B joins the room of A, leaves, joins nothing
  else, and sends a message, \<open>typing\<close> and \<open>stopTyping\<close>; A is sent all three.
\<close>

theorem quit_events_relayed:
  "run init left_sends \<noteq> None
 \<and> received ''A'' (output_after left_sends) =
     [RoomCreated ''325000'' room0 2400000, SystemMessage ''Bob joined.'',
      SystemMessage ''Bob left.'', NewMessage ''hi'' (Some ''Bob''), ShowTyping, HideTyping]"
  by (simp add: output_after_def left_sends_def init_def eval_simps received_def)

text \<open>
  What \<open>quitRoom\<close> does do for a socket whose \<open>roomId\<close> is \<open>r\<close>: "<name> left." goes to the
  other members of transport room \<open>r\<close>, the socket is taken out of that transport room and of
  no other, and the room store is unchanged; no emission to room \<open>r\<close> reaches the socket from
  then on. Nothing bars a new join: if the socket was a member, the room had at most 2 members
  and the room is still found, a \<open>joinRoom\<close> of the same socket succeeds.
\<close>

lemma quitRoom_detaches:
  assumes "socket_roomId (sockets s c) = Some r" and "r \<noteq> []"
    and "quitRoom c s = (s', out)"
  shows "out = [(adapter s r |-| {|c|},
                 SystemMessage (js_String (socket_userName (sockets s c)) @ '' left.''))]
       \<and> adapter s' = (adapter s)(r := adapter s r |-| {|c|})
       \<and> rooms s' = rooms s \<and> roomIds s' = roomIds s
       \<and> c |\<notin>| fst (io_to_emit s' r p) \<and> c |\<notin>| fst (socket_to_emit s' d r p)
       \<and> (c |\<in>| adapter s r \<and> fcard (adapter s r) \<le> 2
            \<and> findRoom s' passcode rid = Some rd \<and> roomId rd = r
            \<and> joinRoom c passcode rid name s' = (s'', out') \<longrightarrow>
              ({|c|}, JoinSuccess r (roomIds s r) (expireAt rd)) \<in> set out'
            \<and> c |\<in>| adapter s'' r
            \<and> sendMessage c message s'' =
                (s'', [(adapter s'' r |-| {|c|},
                        NewMessage message (Some (js_or name ''Anonymous'')))]))"
proof -
  from assms have s': "s' = s\<lparr>adapter := (adapter s)(r := adapter s r |-| {|c|})\<rparr>"
    and out: "out = [(adapter s r |-| {|c|},
                 SystemMessage (js_String (socket_userName (sockets s c)) @ '' left.''))]"
    by (auto simp: quitRoom_def truthy_def js_String_def leave_def socket_to_emit_def)
  have rejoin: "({|c|}, JoinSuccess r (roomIds s r) (expireAt rd)) \<in> set out'
            \<and> c |\<in>| adapter s'' r
            \<and> sendMessage c message s'' =
                (s'', [(adapter s'' r |-| {|c|},
                        NewMessage message (Some (js_or name ''Anonymous'')))])"
    if h: "c |\<in>| adapter s r \<and> fcard (adapter s r) \<le> 2
            \<and> findRoom s' passcode rid = Some rd \<and> roomId rd = r
            \<and> joinRoom c passcode rid name s' = (s'', out')"
  proof -
    from h have "fcard (adapter s r |-| {|c|}) < fcard (adapter s r)"
      by (intro fcard_fminus1_less) simp
    with h have "\<not> 2 \<le> fcard (adapter s' r)" by (simp add: s')
    with h assms(2) show ?thesis
      by (auto simp: joinRoom_eq s' sendMessage_def truthy_def js_String_def socket_to_emit_def)
  qed
  from s' out rejoin show ?thesis
    by (simp add: io_to_emit_def socket_to_emit_def)
qed

lemma quitRoom_detaches_example:
  "socket_roomId (sockets (state_after joined) ''B'') = Some room0 \<and> room0 \<noteq> []
 \<and> quitRoom ''B'' (state_after joined) = (state_after left, [({|''A''|}, SystemMessage ''Bob left.'')])
 \<and> adapter (state_after left) room0 = {|''A''|}
 \<and> ''B'' |\<in>| adapter (state_after joined) room0
 \<and> fcard (adapter (state_after joined) room0) \<le> 2
 \<and> findRoom (state_after left) (Some ''325000'') None = Some \<lparr>roomId = room0, expireAt = 2400000\<rparr>
 \<and> ({|''B''|}, JoinSuccess room0 (Some ''325000'') 2400000)
       \<in> set (snd (joinRoom ''B'' (Some ''325000'') None (Some ''Bob'') (state_after left)))
 \<and> ''B'' |\<in>| adapter (fst (joinRoom ''B'' (Some ''325000'') None (Some ''Bob'') (state_after left))) room0"
proof -
  let ?j = "joinRoom ''B'' (Some ''325000'') None (Some ''Bob'') (state_after left)"
  let ?rd = "\<lparr>roomId = room0, expireAt = 2400000\<rparr>"
  have a: "socket_roomId (sockets (state_after joined) ''B'') = Some room0"
    by (simp add: joined_sockets)
  have b: "room0 \<noteq> []" by (rule room_neq)
  note q = left_step
  have m: "''B'' |\<in>| adapter (state_after joined) room0"
    and n: "fcard (adapter (state_after joined) room0) \<le> 2"
    by (simp_all add: joined_adapter fcard_finsert_if fcard_fempty)
  have f: "findRoom (state_after left) (Some ''325000'') None = Some ?rd"
    by (simp add: findRoom_def truthy_def js_String_def trim_325000 left_facts)
  have j: "?j = (fst ?j, snd ?j)" by simp
  note t = quitRoom_detaches [OF a b q, where passcode = "Some ''325000''" and rid = None
      and rd = ?rd and name = "Some ''Bob''" and s'' = "fst ?j" and out' = "snd ?j"
      and p = ShowTyping and d = "''A''" and message = "''hi''"]
  have rr: "roomId ?rd = room0" by simp
  from t have l: "adapter (state_after left) = (adapter (state_after joined))
      (room0 := adapter (state_after joined) room0 |-| {|''B''|})" by blast
  then have l': "adapter (state_after left) room0 = {|''A''|}"
    by (auto simp: joined_adapter)
  from t m n f j rr have "({|''B''|}, JoinSuccess room0 (roomIds (state_after joined) room0) (expireAt ?rd)) \<in> set (snd ?j)"
    and k: "''B'' |\<in>| adapter (fst ?j) room0"
    by blast+
  then have js: "({|''B''|}, JoinSuccess room0 (Some ''325000'') 2400000) \<in> set (snd ?j)"
    by (simp add: joined_roomIds)
  from a b q l' m n f js k show ?thesis by blast
qed

text \<open>In the run \<open>rejoined_sends\<close> B leaves, joins again on the same socket and sends "hi".\<close>

lemma rejoined_message_relayed:
  "run init rejoined_sends \<noteq> None
 \<and> received ''A'' (output_after rejoined_sends) =
     [RoomCreated ''325000'' room0 2400000, SystemMessage ''Bob joined.'',
      SystemMessage ''Bob left.'', SystemMessage ''Bob joined.'',
      NewMessage ''hi'' (Some ''Bob'')]"
  by (simp add: output_after_def rejoined_sends_def init_def eval_simps received_def)

text \<open>
  Claim C6 (amended). A successful \<open>joinRoom\<close>, one that emits \<open>joinSuccess\<close>, makes exactly
  one more emission: the system message "<name> joined." to all members of the transport room
  as it is after the join, and the joining socket is one of them.
\<close>

theorem joinRoom_joined_broadcast:
  assumes "joinRoom c passcode rid name s = (s', out)"
    and "({|c|}, JoinSuccess r p e) \<in> set out"
  shows "out = [({|c|}, JoinSuccess r p e),
                (adapter s' r, SystemMessage (js_or name ''Anonymous'' @ '' joined.''))]
         \<and> adapter s' r = finsert c (adapter s r)
         \<and> received c out = [JoinSuccess r p e, SystemMessage (js_or name ''Anonymous'' @ '' joined.'')]"
  using assms
  by (auto simp: joinRoom_eq received_def split: option.splits if_splits)

theorem joinRoom_joined_broadcast_witness:
  "joinRoom ''B'' (Some ''325000'') None (Some ''Bob'') (state_after (created @ [Connect ''B''])) =
     (state_after joined, drop 1 (output_after joined)) \<and>
   ({|''B''|}, JoinSuccess room0 (Some ''325000'') 2400000) \<in> set (drop 1 (output_after joined)) \<and>
   adapter (state_after joined) room0 = {|''B'', ''A''|} \<and>
   received ''B'' (drop 1 (output_after joined)) =
     [JoinSuccess room0 (Some ''325000'') 2400000, SystemMessage ''Bob joined.'']"
proof -
  have j: "joinRoom ''B'' (Some ''325000'') None (Some ''Bob'') (state_after (created @ [Connect ''B''])) =
     (state_after joined, drop 1 (output_after joined))"
    by (simp add: state_after_def output_after_def created_def joined_def init_def eval_simps)
  have m: "({|''B''|}, JoinSuccess room0 (Some ''325000'') 2400000) \<in> set (drop 1 (output_after joined))"
    by (simp add: joined_output)
  have r: "received ''B'' (drop 1 (output_after joined)) =
     [JoinSuccess room0 (Some ''325000'') 2400000, SystemMessage ''Bob joined.'']"
  proof -
    have "js_or (Some ''Bob'') ''Anonymous'' @ '' joined.'' = ''Bob joined.''"
      by (simp add: js_or_def truthy_def js_String_def)
    with joinRoom_joined_broadcast [OF j m, THEN conjunct2, THEN conjunct2] show ?thesis
      by (simp only:)
  qed
  have a: "adapter (state_after joined) room0 = {|''B'', ''A''|}"
    by (simp add: joined_adapter)
  from j m a r show ?thesis by blast
qed

text \<open>
  The claim as it stands has the joining socket left out. In the run \<open>joined\<close>, B, who
  joins, is sent "Bob joined." itself.
\<close>

theorem joiner_receives_joined:
  "received ''B'' (output_after joined) =
     [JoinSuccess room0 (Some ''325000'') 2400000, SystemMessage ''Bob joined.'']"
  by (simp add: joined_output received_def)

text \<open>
  Claim C7. A \<open>joinRoom\<close> whose passcode or roomId resolves to no room leaves the whole
  state as it is (both maps, every transport room, the socket's \<open>roomId\<close> and \<open>userName\<close>)
  and makes one emission: the system message "Invalid or expired passcode." to the requester.
\<close>

theorem joinRoom_not_found:
  assumes "findRoom s passcode rid = None"
  shows "joinRoom c passcode rid name s =
           (s, [({|c|}, SystemMessage ''Invalid or expired passcode.'')])"
  using assms by (simp add: joinRoom_eq)

theorem joinRoom_not_found_witness:
  "findRoom (state_after joined) (Some ''000000'') None = None \<and>
   joinRoom ''C'' (Some ''000000'') None None (state_after joined) =
     (state_after joined, [({|''C''|}, SystemMessage ''Invalid or expired passcode.'')])"
proof -
  have h: "findRoom (state_after joined) (Some ''000000'') None = None"
    by (simp add: findRoom_def truthy_def js_String_def trim_000000 joined_rooms)
  show ?thesis using h joinRoom_not_found [OF h] by simp
qed

text \<open>
  Claim C8. A socket that is already in the transport room of the room it asks to join is
  accepted whatever the number of members: it gets \<open>joinSuccess\<close>, no emission is
  "Room is full.", and the members of every transport room stay as they were.
\<close>

theorem joinRoom_rejoin:
  assumes "findRoom s passcode rid = Some roomData"
    and "c |\<in>| adapter s (roomId roomData)"
  shows "snd (joinRoom c passcode rid name s) =
           [({|c|}, JoinSuccess (roomId roomData) (roomIds s (roomId roomData)) (expireAt roomData)),
            (adapter s (roomId roomData), SystemMessage (js_or name ''Anonymous'' @ '' joined.''))]
         \<and> SystemMessage ''Room is full.'' \<notin> snd ` set (snd (joinRoom c passcode rid name s))
         \<and> adapter (fst (joinRoom c passcode rid name s)) = adapter s"
proof -
  from assms(2) have "finsert c (adapter s (roomId roomData)) = adapter s (roomId roomData)"
    by auto
  with assms show ?thesis
    by (simp add: joinRoom_eq joined_suffix)
qed

theorem joinRoom_rejoin_witness:
  "findRoom (state_after joined) (Some ''325000'') None = Some \<lparr>roomId = room0, expireAt = 2400000\<rparr> \<and>
   ''A'' |\<in>| adapter (state_after joined) room0 \<and>
   fcard (adapter (state_after joined) room0) = 2 \<and>
   snd (joinRoom ''A'' (Some ''325000'') None None (state_after joined)) =
     [({|''A''|}, JoinSuccess room0 (Some ''325000'') 2400000),
      ({|''B'', ''A''|}, SystemMessage ''Anonymous joined.'')]"
proof -
  have h: "findRoom (state_after joined) (Some ''325000'') None = Some \<lparr>roomId = room0, expireAt = 2400000\<rparr>"
    by (simp add: findRoom_def truthy_def js_String_def trim_325000 joined_rooms)
  have m: "''A'' |\<in>| adapter (state_after joined) (roomId \<lparr>roomId = room0, expireAt = 2400000\<rparr>)"
    by (simp add: joined_adapter)
  have n: "fcard (adapter (state_after joined) room0) = 2"
    by (simp add: joined_adapter fcard_finsert_if fcard_fempty)
  show ?thesis
    using h m n joinRoom_rejoin [OF h m, of None]
    by (simp add: joined_adapter joined_roomIds js_or_def truthy_def)
qed

text \<open>
  Claim C9. A socket \<open>c\<close> that is a member of transport room \<open>a\<close> and creates a room, or
  joins one with success, whose roomId \<open>b\<close> is not \<open>a\<close>: the members of \<open>a\<close> are the same
  afterwards, so \<open>c\<close> is in \<open>a\<close> and in \<open>b\<close>, and a message that another socket sends to
  \<open>a\<close> still reaches \<open>c\<close>. On the socket object \<open>roomId\<close> is now \<open>b\<close>; \<open>createRoom\<close>
  changes nothing else there, \<open>joinRoom\<close> also sets \<open>userName\<close>.
\<close>

theorem membership_kept:
  assumes "c |\<in>| adapter s a"
  shows "(createRoom c rnd bytes now s = Some (s1, out1) \<and> toHex bytes \<noteq> a \<longrightarrow>
            adapter s1 a = adapter s a \<and> c |\<in>| adapter s1 a \<and> c |\<in>| adapter s1 (toHex bytes)
          \<and> sockets s1 c = (sockets s c)\<lparr>socket_roomId := Some (toHex bytes)\<rparr>
          \<and> (\<forall>d message. d \<noteq> c \<and> socket_roomId (sockets s1 d) = Some a \<and> a \<noteq> [] \<longrightarrow>
                received c (snd (sendMessage d message s1)) =
                  [NewMessage message (socket_userName (sockets s1 d))]))
       \<and> (joinRoom c passcode rid name s = (s2, out2) \<and> ({|c|}, JoinSuccess b p e) \<in> set out2
            \<and> b \<noteq> a \<longrightarrow>
            adapter s2 a = adapter s a \<and> c |\<in>| adapter s2 a \<and> c |\<in>| adapter s2 b
          \<and> sockets s2 c = (sockets s c)\<lparr>socket_roomId := Some b,
                                            socket_userName := Some (js_or name ''Anonymous'')\<rparr>
          \<and> (\<forall>d message. d \<noteq> c \<and> socket_roomId (sockets s2 d) = Some a \<and> a \<noteq> [] \<longrightarrow>
                received c (snd (sendMessage d message s2)) =
                  [NewMessage message (socket_userName (sockets s2 d))]))"
proof (intro conjI impI)
  assume h: "createRoom c rnd bytes now s = Some (s1, out1) \<and> toHex bytes \<noteq> a"
  with assms show "adapter s1 a = adapter s a" and "c |\<in>| adapter s1 a"
    and "c |\<in>| adapter s1 (toHex bytes)"
    and "sockets s1 c = (sockets s c)\<lparr>socket_roomId := Some (toHex bytes)\<rparr>"
    by (auto simp: createRoom_eq split: option.splits)
  then show "\<forall>d message. d \<noteq> c \<and> socket_roomId (sockets s1 d) = Some a \<and> a \<noteq> [] \<longrightarrow>
                received c (snd (sendMessage d message s1)) =
                  [NewMessage message (socket_userName (sockets s1 d))]"
    by (auto simp: sendMessage_def truthy_def js_String_def socket_to_emit_def received_def)
next
  assume h: "joinRoom c passcode rid name s = (s2, out2) \<and> ({|c|}, JoinSuccess b p e) \<in> set out2
            \<and> b \<noteq> a"
  with assms show "adapter s2 a = adapter s a" and "c |\<in>| adapter s2 a"
    and "c |\<in>| adapter s2 b"
    and "sockets s2 c = (sockets s c)\<lparr>socket_roomId := Some b,
                                            socket_userName := Some (js_or name ''Anonymous'')\<rparr>"
    by (auto simp: joinRoom_eq split: option.splits if_splits)
  then show "\<forall>d message. d \<noteq> c \<and> socket_roomId (sockets s2 d) = Some a \<and> a \<noteq> [] \<longrightarrow>
                received c (snd (sendMessage d message s2)) =
                  [NewMessage message (socket_userName (sockets s2 d))]"
    by (auto simp: sendMessage_def truthy_def js_String_def socket_to_emit_def received_def)
qed

theorem membership_kept_witness:
  "''A'' |\<in>| adapter (state_after created) room0
 \<and> createRoom ''A'' [quarter, half] bytes1 0 (state_after created) =
     Some (state_after created_twice, [({|''A''|}, RoomCreated ''550000'' room1 2400000)])
 \<and> toHex bytes1 \<noteq> room0
 \<and> adapter (state_after created_twice) room0 = {|''A''|}
 \<and> ''A'' |\<in>| adapter (state_after created_twice) room1
 \<and> sockets (state_after created_twice) ''A'' = \<lparr>socket_roomId = Some room1, socket_userName = None\<rparr>
 \<and> ''A'' |\<in>| adapter (state_after two_rooms) room0
 \<and> ({|''A''|}, JoinSuccess room1 (Some ''550000'') 2400000)
      \<in> set (snd (joinRoom ''A'' (Some ''550000'') None (Some ''Al'') (state_after two_rooms)))
 \<and> room1 \<noteq> room0
 \<and> adapter (fst (joinRoom ''A'' (Some ''550000'') None (Some ''Al'') (state_after two_rooms))) room0 = {|''A''|}
 \<and> ''A'' |\<in>| adapter (fst (joinRoom ''A'' (Some ''550000'') None (Some ''Al'') (state_after two_rooms))) room1
 \<and> sockets (fst (joinRoom ''A'' (Some ''550000'') None (Some ''Al'') (state_after two_rooms))) ''A'' =
      \<lparr>socket_roomId = Some room1, socket_userName = Some ''Al''\<rparr>"
proof -
  let ?j = "joinRoom ''A'' (Some ''550000'') None (Some ''Al'') (state_after two_rooms)"
  have m0: "''A'' |\<in>| adapter (state_after created) room0"
    by (simp add: created_facts)
  have m: "''A'' |\<in>| adapter (state_after two_rooms) room0"
    by (simp add: two_rooms_facts room_neq)
  note cr = created_twice_step
  have ne: "toHex bytes1 \<noteq> room0" and ne': "room1 \<noteq> room0"
    by (simp_all add: toHex_bytes1 room_neq)
  have js: "({|''A''|}, JoinSuccess room1 (Some ''550000'') 2400000) \<in> set (snd ?j)"
    by (simp add: two_rooms_facts eval_simps trim_550000 state_after_def two_rooms_def created_def init_def)
  have nm: "js_or (Some ''Al'') ''Anonymous'' = ''Al''"
    by (simp add: js_or_def truthy_def js_String_def)
  from membership_kept [OF m0, where rnd = "[quarter, half]" and bytes = bytes1 and now = 0
      and ?s1.0 = "state_after created_twice"
      and ?out1.0 = "[({|''A''|}, RoomCreated ''550000'' room1 2400000)]"] cr ne
  have c1: "adapter (state_after created_twice) room0 = adapter (state_after created) room0"
    and c2: "''A'' |\<in>| adapter (state_after created_twice) (toHex bytes1)"
    and c3: "sockets (state_after created_twice) ''A'' =
       (sockets (state_after created) ''A'')\<lparr>socket_roomId := Some (toHex bytes1)\<rparr>"
    by blast+
  from membership_kept [OF m, where passcode = "Some ''550000''" and rid = None
      and name = "Some ''Al''" and ?s2.0 = "fst ?j" and ?out2.0 = "snd ?j" and b = room1
      and p = "Some ''550000''" and e = 2400000] js ne'
  have j1: "adapter (fst ?j) room0 = adapter (state_after two_rooms) room0"
    and j2: "''A'' |\<in>| adapter (fst ?j) room1"
    and j3: "sockets (fst ?j) ''A'' = (sockets (state_after two_rooms) ''A'')
        \<lparr>socket_roomId := Some room1, socket_userName := Some (js_or (Some ''Al'') ''Anonymous'')\<rparr>"
    by simp_all
  from c1 have c1': "adapter (state_after created_twice) room0 = {|''A''|}"
    by (simp add: created_facts)
  from c2 have c2': "''A'' |\<in>| adapter (state_after created_twice) room1"
    by (simp add: toHex_bytes1)
  from c3 have c3': "sockets (state_after created_twice) ''A'' =
      \<lparr>socket_roomId = Some room1, socket_userName = None\<rparr>"
    by (simp add: created_facts toHex_bytes1)
  from j1 have j1': "adapter (fst ?j) room0 = {|''A''|}"
    by (simp add: two_rooms_facts room_neq)
  from j3 have j3': "sockets (fst ?j) ''A'' = \<lparr>socket_roomId = Some room1, socket_userName = Some ''Al''\<rparr>"
    by (simp add: two_rooms_facts nm)
  from m0 cr ne c1' c2' c3' m js ne' j1' j2 j3' show ?thesis by blast
qed

text \<open>
  Claim C10. A socket connects, creates a room and sends no other event of its own; whatever
  the other sockets and the timers do before and after, its \<open>userName\<close> is still
  \<open>undefined\<close>, and a \<open>sendMessage\<close> of it relays \<open>newMessage\<close> with \<open>from\<close>
  \<open>undefined\<close> to the other members of the room it created.
\<close>

theorem creator_sends_from_undefined:
  assumes "run s0 (Connect c # es1 @ CreateRoom c rnd bytes now # es2) = Some (s, out)"
    and "list_all (\<lambda>e. \<not> by_socket c e) (es1 @ es2)"
  shows "sendMessage c message s =
           (s, [(adapter s (toHex bytes) |-| {|c|}, NewMessage message None)])"
proof -
  from assms(2) have l1: "list_all (\<lambda>e. \<not> by_socket c e) es1"
    and l2: "list_all (\<lambda>e. \<not> by_socket c e) es2" by simp_all
  from assms(1) obtain s1 o1 o1' where
    c0: "step s0 (Connect c) = Some (s1, o1)"
    and r1: "run s1 (es1 @ CreateRoom c rnd bytes now # es2) = Some (s, o1')"
    by (auto split: option.splits)
  from r1 obtain s2 o2 o2' where
    r2: "run s1 es1 = Some (s2, o2)"
    and r3: "run s2 (CreateRoom c rnd bytes now # es2) = Some (s, o2')"
    by (auto simp: run_append split: option.splits)
  from r3 obtain s3 o3 o3' where
    c3: "step s2 (CreateRoom c rnd bytes now) = Some (s3, o3)"
    and r4: "run s3 es2 = Some (s, o3')"
    by (auto split: option.splits)
  from c0 have "sockets s1 c = \<lparr>socket_roomId = None, socket_userName = None\<rparr>"
    by (auto split: if_splits)
  with run_other_socket [OF r2 l1]
  have f2: "sockets s2 c = \<lparr>socket_roomId = None, socket_userName = None\<rparr>" by simp
  from c3 have len: "length bytes = 16"
    and cr: "createRoom c rnd bytes now s2 = Some (s3, o3)"
    by (auto split: if_splits)
  from cr f2 have "sockets s3 c = \<lparr>socket_roomId = Some (toHex bytes), socket_userName = None\<rparr>"
    by (auto simp: createRoom_eq split: option.splits)
  with run_other_socket [OF r4 l2]
  have f: "sockets s c = \<lparr>socket_roomId = Some (toHex bytes), socket_userName = None\<rparr>" by simp
  from len have "toHex bytes \<noteq> []" by (intro toHex_nonempty) auto
  with f show ?thesis
    by (simp add: sendMessage_def truthy_def js_String_def socket_to_emit_def)
qed

theorem creator_sends_from_undefined_witness:
  "run init (Connect ''A'' # [Connect ''B''] @ CreateRoom ''A'' [quarter] bytes0 0 #
        [JoinRoom ''B'' (Some ''325000'') None (Some ''Bob'')]) =
     Some (state_after creator_only, output_after creator_only)
 \<and> list_all (\<lambda>e. \<not> by_socket ''A'' e)
       ([Connect ''B''] @ [JoinRoom ''B'' (Some ''325000'') None (Some ''Bob'')])
 \<and> sendMessage ''A'' ''hi'' (state_after creator_only) =
       (state_after creator_only, [({|''B''|}, NewMessage ''hi'' None)])"
proof -
  have r: "run init (Connect ''A'' # [Connect ''B''] @ CreateRoom ''A'' [quarter] bytes0 0 #
        [JoinRoom ''B'' (Some ''325000'') None (Some ''Bob'')]) =
     Some (state_after creator_only, output_after creator_only)"
    using creator_only_run by (simp add: creator_only_def)
  have l: "list_all (\<lambda>e. \<not> by_socket ''A'' e)
       ([Connect ''B''] @ [JoinRoom ''B'' (Some ''325000'') None (Some ''Bob'')])"
    by simp
  have m: "adapter (state_after creator_only) (toHex bytes0) |-| {|''A''|} = {|''B''|}"
    by (auto simp: toHex_bytes0 creator_only_adapter)
  from creator_sends_from_undefined [OF r l, of "''hi''"] m
  have "sendMessage ''A'' ''hi'' (state_after creator_only) =
       (state_after creator_only, [({|''B''|}, NewMessage ''hi'' None)])"
    by (simp only:)
  with r l show ?thesis by blast
qed

end
